theory Spec2Isabelle
  imports Complex_Main "HOL-Library.Sublist" "HOL-Library.Word"
begin

section \<open>Python values: text, bytes, exceptions\<close>

text \<open>
  A Python \<open>str\<close> is a sequence of Unicode code points, so \<open>len\<close> and slicing count
  code points; a \<open>bytes\<close> value is a sequence of octets. The texts of the program that
  are not ASCII (the Chinese labels of the transcript) are written as their code points.
  An exception is carried as the text \<open>str(e)\<close> that the handlers print.
\<close>

type_synonym ustr = "nat list"
type_synonym bytes = "8 word list"
type_synonym exn = ustr

definition ascii :: "string \<Rightarrow> ustr" where
  "ascii s = map of_char s"

text \<open>\<open>str(n)\<close> of a non-negative and of any integer, as an f-string renders it.\<close>

fun str_nat :: "nat \<Rightarrow> ustr" where
  "str_nat n = (if n < 10 then [48 + n] else str_nat (n div 10) @ [48 + n mod 10])"

declare str_nat.simps [simp del]

definition str_int :: "int \<Rightarrow> ustr" where
  "str_int i = (if i < 0 then 45 # str_nat (nat (- i)) else str_nat (nat i))"

text \<open>\<open>sub in s\<close> on sequences.\<close>

fun str_contains :: "'a list \<Rightarrow> 'a list \<Rightarrow> bool" where
  "str_contains sub [] = (sub = [])"
| "str_contains sub (x # xs) = (prefix sub (x # xs) \<or> str_contains sub xs)"

text \<open>\<open>s.split(c)\<close> for a separator of one character: never the empty list.\<close>

fun split_char :: "'a \<Rightarrow> 'a list \<Rightarrow> 'a list list" where
  "split_char c [] = [[]]"
| "split_char c (x # xs) =
     (if x = c then [] # split_char c xs
      else (case split_char c xs of
              [] \<Rightarrow> [[x]]
            | y # ys \<Rightarrow> (x # y) # ys))"

text \<open>\<open>getattr(obj, name, default)\<close>: an attribute that may be missing is an option.\<close>

definition getattr :: "'a option \<Rightarrow> 'a \<Rightarrow> 'a" where
  "getattr field dflt = (case field of None \<Rightarrow> dflt | Some v \<Rightarrow> v)"

section \<open>The recording manager (\<open>barrage_manager.py\<close>)\<close>

subsection \<open>State\<close>

text \<open>
  The manager owns two dictionaries keyed by the recording id. Around it stand the file
  system (each file as the sequence of strings written to it), the application logger
  and the wall clock; \<open>ticks\<close> counts the readings of the clock taken so far, and the
  environment says what the \<open>k\<close>-th reading looks like under a \<open>strftime\<close> format.
  The fetcher stored for a recording is kept by the attributes the manager gives it; its
  \<open>stop()\<close> is the base class's (not part of these files) and is a parameter
  of \<open>stop_barrage_recording\<close>: \<open>None\<close> when it returns, \<open>Some e\<close> when it raises \<open>e\<close>.
\<close>

datatype level = INFO | WARNING | ERROR

record fetcher_obj =
  live_id :: ustr
  recording_id :: ustr
  barrage_file :: ustr

record world =
  active_fetchers :: "ustr \<rightharpoonup> fetcher_obj"
  barrage_files :: "ustr \<rightharpoonup> ustr"
  files :: "ustr \<rightharpoonup> ustr list"
  logged :: "(level \<times> ustr) list"
  ticks :: nat

record env =
  now_strftime :: "nat \<Rightarrow> ustr \<Rightarrow> ustr"
  can_makedirs :: "ustr \<Rightarrow> bool"
  writable :: "ustr \<Rightarrow> bool"
  os_error :: "ustr \<Rightarrow> exn"
  path_join :: "ustr \<Rightarrow> ustr \<Rightarrow> ustr"

definition logger :: "level \<Rightarrow> ustr \<Rightarrow> world \<Rightarrow> world" where
  "logger lv msg w = w\<lparr>logged := logged w @ [(lv, msg)]\<rparr>"

subsection \<open>Session control\<close>

text \<open>
  Every method returns through its \<open>try\<close>: a failure of the file system is a branch that
  logs and returns \<open>None\<close> or \<open>False\<close>. The constructor of the fetcher and the launch of
  the receive thread (lines 38-51 and 61-64) are taken to succeed; the thread runs beside
  the caller and is not part of \<open>start_barrage_recording\<close>'s result.
\<close>

definition extract_live_id :: "ustr \<Rightarrow> world \<Rightarrow> ustr option \<times> world" where
  "extract_live_id live_url w =
     (if str_contains (ascii ''live.douyin.com'') live_url then
        (if str_contains (ascii ''/'') live_url
         then (Some (hd (split_char 63 (last (split_char 47 live_url)))), w)
         else (None, w))
      else if str_contains (ascii ''v.douyin.com'') live_url then
        (None, logger WARNING
           [30701, 38142, 25509, 38656, 35201, 35299, 26512, 65292, 26242, 19981, 25903, 25345] w)
      else (None, w))"

definition barrage_header :: "ustr \<Rightarrow> ustr \<Rightarrow> ustr list" where
  "barrage_header rid started =
     [ascii ''# '' @ [25238, 38899, 30452, 25773, 38388, 24377, 24149, 35299, 26512, 25991, 20214, 10],
      ascii ''# '' @ [24405, 21046] @ ascii ''ID: '' @ rid @ [10],
      ascii ''# '' @ [24320, 22987, 26102, 38388] @ ascii '': '' @ started @ [10],
      ascii ''# '' @ [26684, 24335] @ ascii '': ['' @ [26102, 38388] @ ascii ''] [''
        @ [28040, 24687, 31867, 22411] @ ascii ''] ['' @ [35814, 32454, 20449, 24687] @ ascii '']'' @ [10],
      ascii ''# '' @ [35828, 26126] @ ascii '': ''
        @ [21253, 21547, 20197, 19979, 28040, 24687, 31867, 22411, 65306, 10],
      ascii ''#       - '' @ [24377, 24149] @ ascii '': '' @ [35266, 20247, 32842, 22825, 28040, 24687, 10],
      ascii ''#       - '' @ [31036, 29289] @ ascii '': '' @ [35266, 20247, 36192, 36865, 31036, 29289, 10],
      ascii ''#       - '' @ [36827, 22330] @ ascii '': ''
        @ [35266, 20247, 36827, 20837, 30452, 25773, 38388, 10],
      ascii ''#       - '' @ [28857, 36190] @ ascii '': '' @ [35266, 20247, 28857, 36190, 10],
      ascii ''#       - '' @ [20851, 27880] @ ascii '': '' @ [35266, 20247, 20851, 27880, 20027, 25773, 10],
      ascii ''#       - '' @ [19979, 21333] @ ascii '': '' @ [35266, 20247, 19979, 21333, 21830, 21697, 10],
      ascii ''#       - '' @ [32479, 35745] @ ascii '': ''
        @ [30452, 25773, 38388, 32479, 35745, 20449, 24687, 10, 10]]"

definition create_barrage_file :: "env \<Rightarrow> ustr \<Rightarrow> ustr \<Rightarrow> world \<Rightarrow> ustr option \<times> world" where
  "create_barrage_file ev rid recording_dir w =
     (let dir = (if recording_dir = [] then ascii ''downloads'' else recording_dir);
          failed = [21019, 24314, 24377, 24149, 25991, 20214, 22833, 36133] @ ascii '': ''
      in if \<not> can_makedirs ev dir then (None, logger ERROR (failed @ os_error ev dir) w)
         else
           let timestamp = now_strftime ev (ticks w) (ascii ''%Y%m%d_%H%M%S'');
               filename = ascii ''barrage_'' @ rid @ ascii ''_'' @ timestamp @ ascii ''.txt'';
               file_path = path_join ev dir filename;
               w1 = w\<lparr>ticks := ticks w + 1\<rparr>
           in if \<not> writable ev file_path
              then (None, logger ERROR (failed @ os_error ev file_path) w1)
              else
                let started = now_strftime ev (ticks w1) (ascii ''%Y-%m-%d %H:%M:%S'')
                in (Some file_path,
                    w1\<lparr>files := (files w1)(file_path \<mapsto> barrage_header rid started),
                       ticks := ticks w1 + 1\<rparr>))"

text \<open>\<open>not x\<close> for an optional string: \<open>None\<close> and the empty string are both falsy.\<close>

definition falsy :: "ustr option \<Rightarrow> bool" where
  "falsy x = (case x of None \<Rightarrow> True | Some s \<Rightarrow> s = [])"

definition start_barrage_recording ::
  "env \<Rightarrow> ustr \<Rightarrow> ustr \<Rightarrow> ustr \<Rightarrow> ustr \<Rightarrow> world \<Rightarrow> bool \<times> world" where
  "start_barrage_recording ev rid live_url platform recording_dir w =
     (if platform \<noteq> ascii ''douyin''
      then (False, logger WARNING
              ([24377, 24149, 24405, 21046, 26242, 19981, 25903, 25345, 24179, 21488] @ ascii '': '' @ platform) w)
      else
        (case extract_live_id live_url w of
           (lid, w1) \<Rightarrow>
             if falsy lid
             then (False, logger ERROR
                     ([26080, 27861, 20174] @ ascii ''URL'' @ [25552, 21462, 30452, 25773, 38388]
                        @ ascii ''ID: '' @ live_url) w1)
             else
               (case create_barrage_file ev rid recording_dir w1 of
                  (bf, w2) \<Rightarrow>
                    if falsy bf then (False, w2)
                    else
                      let fetcher = \<lparr>live_id = getattr lid [], recording_id = rid,
                                       barrage_file = getattr bf []\<rparr>;
                          w3 = w2\<lparr>active_fetchers := (active_fetchers w2)(rid \<mapsto> fetcher),
                                 barrage_files := (barrage_files w2)(rid \<mapsto> getattr bf [])\<rparr>
                      in (True, logger INFO
                            ([24320, 22987, 24377, 24149, 24405, 21046] @ ascii '': '' @ rid
                               @ ascii '', '' @ [25991, 20214] @ ascii '': '' @ getattr bf []) w3))))"

definition stop_barrage_recording ::
  "(fetcher_obj \<Rightarrow> exn option) \<Rightarrow> ustr \<Rightarrow> world \<Rightarrow> bool \<times> world" where
  "stop_barrage_recording stop rid w =
     (case active_fetchers w rid of
        None \<Rightarrow> (False, w)
      | Some fetcher \<Rightarrow>
          (case stop fetcher of
             Some e \<Rightarrow>
               (False, logger ERROR
                  ([20572, 27490, 24377, 24149, 24405, 21046, 22833, 36133] @ ascii '': '' @ e) w)
           | None \<Rightarrow>
               (True, logger INFO
                  ([20572, 27490, 24377, 24149, 24405, 21046] @ ascii '': '' @ rid)
                  (w\<lparr>active_fetchers := (active_fetchers w)(rid := None),
                     barrage_files := (barrage_files w)(rid := None)\<rparr>))))"

definition is_recording :: "ustr \<Rightarrow> world \<Rightarrow> bool" where
  "is_recording rid w = (active_fetchers w rid \<noteq> None)"

definition get_barrage_file :: "ustr \<Rightarrow> world \<Rightarrow> ustr option" where
  "get_barrage_file rid w = barrage_files w rid"

subsection \<open>Writing the transcript\<close>

text \<open>
  \<open>_write_to_file\<close> is a no-op for an id without a transcript path; a failing \<open>open\<close> is
  logged and swallowed. The handlers read the fields of a decoded message with
  \<open>getattr\<close> and a default; \<open>msg.user\<close> is there on every decoded message. Their own
  \<open>try\<close> guards only \<open>_write_to_file\<close>, which lets nothing out. The three gender texts
  of lines 183-188 are named \<open>zh_male\<close>, \<open>zh_female\<close> and \<open>zh_unknown\<close>.
\<close>

definition write_to_file :: "env \<Rightarrow> ustr \<Rightarrow> ustr \<Rightarrow> world \<Rightarrow> world" where
  "write_to_file ev rid message w =
     (case barrage_files w rid of
        None \<Rightarrow> w
      | Some path \<Rightarrow>
          let timestamp = now_strftime ev (ticks w) (ascii ''%H:%M:%S'');
              w1 = w\<lparr>ticks := ticks w + 1\<rparr>
          in if \<not> writable ev path
             then logger ERROR
                    ([20889, 20837, 24377, 24149, 25991, 20214, 22833, 36133] @ ascii '': ''
                       @ os_error ev path) w1
             else w1\<lparr>files := (files w1)(path \<mapsto>
                        getattr (files w1 path) [] @ [ascii ''['' @ timestamp @ ascii ''] '' @ message @ [10]])\<rparr>)"

definition zh_male :: ustr where
  "zh_male = [30007]"

definition zh_female :: ustr where
  "zh_female = [22899]"

definition zh_unknown :: ustr where
  "zh_unknown = [26410, 30693]"

record User =
  nick_name :: "ustr option"
  gender :: "int option"

record MemberMessage =
  user :: User

definition handle_member_message :: "env \<Rightarrow> ustr \<Rightarrow> MemberMessage \<Rightarrow> world \<Rightarrow> world" where
  "handle_member_message ev rid msg w =
     (let user_name = getattr (nick_name (user msg)) [];
          gender_value = getattr (gender (user msg)) 0;
          gender_text = (if gender_value = 1 then zh_male
                         else if gender_value = 0 then zh_female
                         else zh_unknown)
      in write_to_file ev rid
           (ascii ''['' @ [36827, 22330] @ ascii ''] ['' @ gender_text @ ascii '']'' @ user_name
              @ ascii '' '' @ [36827, 20837, 20102, 30452, 25773, 38388]) w)"

definition handle_error_message :: "env \<Rightarrow> ustr \<Rightarrow> ustr \<Rightarrow> world \<Rightarrow> world" where
  "handle_error_message ev rid msg w =
     write_to_file ev rid (ascii ''['' @ [31995, 32479] @ ascii ''] '' @ msg) w"

section \<open>The fetcher (\<open>streamcap_adapter.py\<close>)\<close>

subsection \<open>Computations with effects and exceptions\<close>

text \<open>
  A method of the fetcher acts on a state and either returns or raises; the state it
  leaves behind is kept in both cases, since effects that happened before a raise stay.
\<close>

type_synonym ('a, 's) comp = "'s \<Rightarrow> (exn + 'a) \<times> 's"
type_synonym 's action = "(unit, 's) comp"

definition ok :: "'s action" where
  "ok s = (Inr (), s)"

definition throw :: "exn \<Rightarrow> ('a, 's) comp" where
  "throw e s = (Inl e, s)"

definition then_do :: "'s action \<Rightarrow> ('a, 's) comp \<Rightarrow> ('a, 's) comp" where
  "then_do a b s = (case a s of (Inl e, s') \<Rightarrow> (Inl e, s') | (Inr u, s') \<Rightarrow> b s')"

definition try_except :: "'s action \<Rightarrow> (exn \<Rightarrow> 's action) \<Rightarrow> 's action" where
  "try_except body handler s =
     (case body s of (Inl e, s') \<Rightarrow> handler e s' | (Inr u, s') \<Rightarrow> (Inr (), s'))"

text \<open>
  \<open>self.cb(x)\<close> where the attribute may hold \<open>None\<close> (a \<open>TypeError\<close>), and the guarded
  form \<open>if self.cb: self.cb(x)\<close>.
\<close>

definition not_callable :: exn where
  "not_callable = [39] @ ascii ''NoneType'' @ [39] @ ascii '' object is not callable''"

definition call :: "('a \<Rightarrow> 's action) option \<Rightarrow> 'a \<Rightarrow> 's action" where
  "call cb x = (case cb of None \<Rightarrow> throw not_callable | Some h \<Rightarrow> h x)"

definition if_set :: "('a \<Rightarrow> 's action) option \<Rightarrow> 'a \<Rightarrow> 's action" where
  "if_set cb x = (case cb of None \<Rightarrow> ok | Some h \<Rightarrow> h x)"

fun for_each :: "('a \<Rightarrow> 's action) \<Rightarrow> 'a list \<Rightarrow> 's action" where
  "for_each body [] = ok"
| "for_each body (x # xs) = then_do (body x) (for_each body xs)"

subsection \<open>Wire data and what the libraries provide\<close>

text \<open>
  The protobuf classes, gzip, the Unicode tables, \<open>hashlib\<close> and the local time zone are
  not part of these files: they are parameters. The decoded classes that the fetcher only
  hands on to a callback share one type \<open>'m\<close>; the two it reads itself are records of the
  attributes it reads, each read with \<open>getattr\<close> and a default. The field \<open>payload\<close>
  of a frame is \<open>frame_payload\<close> here, and \<open>method\<close> and \<open>payload\<close> of a message are
  \<open>msg_method\<close> and \<open>msg_payload\<close>.
\<close>

record PushFrame =
  log_id :: "64 word"
  payload_type :: ustr
  frame_payload :: bytes

record Message =
  msg_method :: ustr
  msg_payload :: bytes

record Response =
  need_ack :: bool
  internal_ext :: ustr
  messages_list :: "Message list"

record Common =
  create_time :: "int option"

record LiveShoppingMessage =
  common :: "Common option"
  msg_type :: "int option"
  promotion_id :: "int option"

record ProductChangeMessage =
  update_toast :: "ustr option"
  updateTimestamp :: "int option"
  updateToast :: "ustr option"

record 'm codec =
  parse_PushFrame :: "bytes \<Rightarrow> exn + PushFrame"
  gzip_decompress :: "bytes \<Rightarrow> exn + bytes"
  parse_Response :: "bytes \<Rightarrow> exn + Response"
  parse_ChatMessage :: "bytes \<Rightarrow> exn + 'm"
  parse_GiftMessage :: "bytes \<Rightarrow> exn + 'm"
  parse_MemberMessage :: "bytes \<Rightarrow> exn + 'm"
  parse_LikeMessage :: "bytes \<Rightarrow> exn + 'm"
  parse_SocialMessage :: "bytes \<Rightarrow> exn + 'm"
  parse_EmojiChatMessage :: "bytes \<Rightarrow> exn + 'm"
  parse_RoomUserSeqMessage :: "bytes \<Rightarrow> exn + 'm"
  parse_RoomStatsMessage :: "bytes \<Rightarrow> exn + 'm"
  parse_ControlMessage :: "bytes \<Rightarrow> exn + 'm"
  parse_ProductChangeMessage :: "bytes \<Rightarrow> exn + ProductChangeMessage"
  parse_LiveShoppingMessage :: "bytes \<Rightarrow> exn + LiveShoppingMessage"

record pyrt =
  decode_utf8_ignore :: "bytes \<Rightarrow> ustr"
  isprintable :: "nat \<Rightarrow> bool"
  repr_bytes :: "bytes \<Rightarrow> ustr"
  md5_hexdigest :: "bytes \<Rightarrow> ustr"
  strftime_HMS_local :: "int \<Rightarrow> exn + ustr"

text \<open>\<open>s.encode('utf-8')\<close>: a lone surrogate cannot be encoded.\<close>

definition utf8_char :: "nat \<Rightarrow> bytes option" where
  "utf8_char c =
     (if c < 128 then Some [of_nat c]
      else if c < 2048 then Some [of_nat (192 + c div 64), of_nat (128 + c mod 64)]
      else if 55296 \<le> c \<and> c \<le> 57343 then None
      else if c < 65536 then
        Some [of_nat (224 + c div 4096), of_nat (128 + (c div 64) mod 64), of_nat (128 + c mod 64)]
      else if c < 1114112 then
        Some [of_nat (240 + c div 262144), of_nat (128 + (c div 4096) mod 64),
              of_nat (128 + (c div 64) mod 64), of_nat (128 + c mod 64)]
      else None)"

fun utf8_encode :: "ustr \<Rightarrow> exn + bytes" where
  "utf8_encode [] = Inr []"
| "utf8_encode (c # cs) =
     (case utf8_char c of
        None \<Rightarrow> Inl (ascii ''surrogates not allowed'')
      | Some bs \<Rightarrow> (case utf8_encode cs of Inl e \<Rightarrow> Inl e | Inr rest \<Rightarrow> Inr (bs @ rest)))"

text \<open>
  \<open>payload.hex()\<close>, \<open>int(two_digits, 16)\<close> on a pair of hexadecimal digits (the only
  input \<open>hex()\<close> gives it; anything else is the \<open>ValueError\<close> branch) and
  \<open>sep.join(parts)\<close>.
\<close>

definition hex_digit :: "nat \<Rightarrow> nat" where
  "hex_digit d = (if d < 10 then 48 + d else 87 + d)"

definition bytes_hex :: "bytes \<Rightarrow> ustr" where
  "bytes_hex bs = concat (map (\<lambda>b. [hex_digit (unat b div 16), hex_digit (unat b mod 16)]) bs)"

definition hex_value :: "nat \<Rightarrow> nat option" where
  "hex_value c =
     (if 48 \<le> c \<and> c \<le> 57 then Some (c - 48)
      else if 97 \<le> c \<and> c \<le> 102 then Some (c - 87)
      else if 65 \<le> c \<and> c \<le> 70 then Some (c - 55)
      else None)"

definition int16 :: "nat \<Rightarrow> nat \<Rightarrow> nat option" where
  "int16 a b =
     (case hex_value a of None \<Rightarrow> None
      | Some x \<Rightarrow> (case hex_value b of None \<Rightarrow> None | Some y \<Rightarrow> Some (16 * x + y)))"

fun str_join :: "'a list \<Rightarrow> 'a list list \<Rightarrow> 'a list" where
  "str_join sep [] = []"
| "str_join sep [x] = x"
| "str_join sep (x # y # ys) = x @ sep @ str_join sep (y # ys)"

text \<open>
  The loop over the hexadecimal text, two digits at a time (lines 288-299 and 509-519):
  a printable ASCII value gives its character, anything else a dot.
\<close>

fun hex_scan :: "ustr \<Rightarrow> ustr" where
  "hex_scan (a # b # rest) =
     (case int16 a b of
        Some v \<Rightarrow> (if 32 \<le> v \<and> v \<le> 126 then v else 46)
      | None \<Rightarrow> 46) # hex_scan rest"
| "hex_scan [a] = []"
| "hex_scan [] = []"

subsection \<open>The fetcher object\<close>

record ('m, 'w) fetcher =
  on_chat :: "('m \<Rightarrow> 'w action) option"
  on_gift :: "('m \<Rightarrow> 'w action) option"
  on_member :: "('m \<Rightarrow> 'w action) option"
  on_like :: "('m \<Rightarrow> 'w action) option"
  on_social :: "('m \<Rightarrow> 'w action) option"
  on_emoji_chat :: "('m \<Rightarrow> 'w action) option"
  on_room_user_seq :: "('m \<Rightarrow> 'w action) option"
  on_room_stats :: "('m \<Rightarrow> 'w action) option"
  on_control :: "('m \<Rightarrow> 'w action) option"
  on_error :: "(ustr \<Rightarrow> 'w action) option"
  on_raw_message :: "(ustr \<times> bytes \<Rightarrow> 'w action) option"

datatype opcode = OPCODE_BINARY | OPCODE_PING

text \<open>
  The socket the callbacks of \<open>_wsOnMessage\<close> receive: the frames handed to \<open>ws.send\<close>
  (each as the \<open>PushFrame\<close> that is serialized, with its opcode), whether the connection
  is still open (\<open>send\<close> raises when it is not), and the state the callbacks act on.
\<close>

record 'w conn =
  ws_sent :: "(PushFrame \<times> opcode) list"
  ws_connected :: bool
  app :: 'w

definition ws_send :: "PushFrame \<Rightarrow> opcode \<Rightarrow> 'w conn action" where
  "ws_send frame opc c =
     (if ws_connected c then (Inr (), c\<lparr>ws_sent := ws_sent c @ [(frame, opc)]\<rparr>)
      else (Inl (ascii ''Connection is already closed.''), c))"

definition on_app :: "'w action \<Rightarrow> 'w conn action" where
  "on_app a c = (case a (app c) of (r, w') \<Rightarrow> (r, c\<lparr>app := w'\<rparr>))"

subsection \<open>Typed parsers\<close>

text \<open>
  The nine parsers of lines 184-212 and 329-387 have one shape: decode, hand the object to
  the callback if one is set, and report any exception under the parser's own label.
\<close>

definition parse_and_handle ::
  "(bytes \<Rightarrow> exn + 'm) \<Rightarrow> ('m \<Rightarrow> 'w action) option \<Rightarrow> (ustr \<Rightarrow> 'w action) option \<Rightarrow> ustr \<Rightarrow> bytes
     \<Rightarrow> 'w action" where
  "parse_and_handle parse handler report label payload =
     try_except
       (case parse payload of
          Inl e \<Rightarrow> throw e
        | Inr message \<Rightarrow> if_set handler message)
       (\<lambda>e. if_set report (label @ e))"

definition parseChatMsg :: "'m codec \<Rightarrow> ('m, 'w) fetcher \<Rightarrow> bytes \<Rightarrow> 'w action" where
  "parseChatMsg cd f = parse_and_handle (parse_ChatMessage cd) (on_chat f) (on_error f)
     (ascii ''['' @ [24377, 24149, 35299, 26512, 38169, 35823] @ ascii ''] '')"

definition parseGiftMsg :: "'m codec \<Rightarrow> ('m, 'w) fetcher \<Rightarrow> bytes \<Rightarrow> 'w action" where
  "parseGiftMsg cd f = parse_and_handle (parse_GiftMessage cd) (on_gift f) (on_error f)
     (ascii ''['' @ [31036, 29289, 35299, 26512, 38169, 35823] @ ascii ''] '')"

definition parseMemberMsg :: "'m codec \<Rightarrow> ('m, 'w) fetcher \<Rightarrow> bytes \<Rightarrow> 'w action" where
  "parseMemberMsg cd f = parse_and_handle (parse_MemberMessage cd) (on_member f) (on_error f)
     (ascii ''['' @ [35266, 20247, 36827, 20837, 35299, 26512, 38169, 35823] @ ascii ''] '')"

definition parseLikeMsg :: "'m codec \<Rightarrow> ('m, 'w) fetcher \<Rightarrow> bytes \<Rightarrow> 'w action" where
  "parseLikeMsg cd f = parse_and_handle (parse_LikeMessage cd) (on_like f) (on_error f)
     (ascii ''['' @ [28857, 36190, 35299, 26512, 38169, 35823] @ ascii ''] '')"

definition parseSocialMsg :: "'m codec \<Rightarrow> ('m, 'w) fetcher \<Rightarrow> bytes \<Rightarrow> 'w action" where
  "parseSocialMsg cd f = parse_and_handle (parse_SocialMessage cd) (on_social f) (on_error f)
     (ascii ''['' @ [20851, 27880, 35299, 26512, 38169, 35823] @ ascii ''] '')"

definition parseEmojiChatMsg :: "'m codec \<Rightarrow> ('m, 'w) fetcher \<Rightarrow> bytes \<Rightarrow> 'w action" where
  "parseEmojiChatMsg cd f = parse_and_handle (parse_EmojiChatMessage cd) (on_emoji_chat f) (on_error f)
     (ascii ''['' @ [34920, 24773, 24377, 24149, 35299, 26512, 38169, 35823] @ ascii ''] '')"

definition parseRoomUserSeqMsg :: "'m codec \<Rightarrow> ('m, 'w) fetcher \<Rightarrow> bytes \<Rightarrow> 'w action" where
  "parseRoomUserSeqMsg cd f =
     parse_and_handle (parse_RoomUserSeqMessage cd) (on_room_user_seq f) (on_error f)
       (ascii ''['' @ [25151, 38388, 29992, 25143, 24207, 21015, 35299, 26512, 38169, 35823] @ ascii ''] '')"

definition parseRoomStatsMsg :: "'m codec \<Rightarrow> ('m, 'w) fetcher \<Rightarrow> bytes \<Rightarrow> 'w action" where
  "parseRoomStatsMsg cd f =
     parse_and_handle (parse_RoomStatsMessage cd) (on_room_stats f) (on_error f)
       (ascii ''['' @ [25151, 38388, 32479, 35745, 35299, 26512, 38169, 35823] @ ascii ''] '')"

definition parseControlMsg :: "'m codec \<Rightarrow> ('m, 'w) fetcher \<Rightarrow> bytes \<Rightarrow> 'w action" where
  "parseControlMsg cd f = parse_and_handle (parse_ControlMessage cd) (on_control f) (on_error f)
     (ascii ''['' @ [25511, 21046, 28040, 24687, 35299, 26512, 38169, 35823] @ ascii ''] '')"

subsection \<open>Commerce parsers\<close>

text \<open>
  These call \<open>self.on_error\<close> without the guard (\<open>call\<close>), inside a \<open>try\<close> whose handler
  is guarded (\<open>if_set\<close>).
\<close>

definition parseProductChangeMsg :: "'m codec \<Rightarrow> ('m, 'w) fetcher \<Rightarrow> bytes \<Rightarrow> 'w action" where
  "parseProductChangeMsg cd f payload =
     try_except
       (case parse_ProductChangeMessage cd payload of
          Inl e \<Rightarrow> throw e
        | Inr message \<Rightarrow>
            let toast = getattr (update_toast message) []
            in if toast \<noteq> []
               then call (on_error f) (ascii ''['' @ [21830, 21697, 21464, 26356] @ ascii ''] '' @ toast)
               else ok)
       (\<lambda>e. if_set (on_error f)
               (ascii ''['' @ [21830, 21697, 21464, 26356, 35299, 26512, 38169, 35823] @ ascii ''] '' @ e))"

definition type_map :: "int \<Rightarrow> ustr" where
  "type_map t =
     (if t = 1 then [21830, 21697, 23637, 31034]
      else if t = 2 then [19979, 21333, 25805, 20316]
      else if t = 3 then [21152, 36141, 29289, 36710]
      else if t = 4 then [20851, 27880, 21830, 21697]
      else if t = 5 then [21462, 28040, 20851, 27880]
      else [26410, 30693, 25805, 20316] @ ascii ''('' @ str_int t @ ascii '')'')"

definition shopping_line :: "ustr option \<Rightarrow> ustr \<Rightarrow> int \<Rightarrow> ustr" where
  "shopping_line time_str operation pid =
     (case time_str of
        Some ts \<Rightarrow> ascii ''['' @ [30452, 25773, 36141, 29289] @ ascii ''] '' @ ts @ ascii '' - '' @ operation
                     @ ascii '', '' @ [21830, 21697] @ ascii ''ID:'' @ str_int pid
      | None \<Rightarrow> ascii ''['' @ [30452, 25773, 36141, 29289] @ ascii ''] '' @ operation
                     @ ascii '', '' @ [21830, 21697] @ ascii ''ID:'' @ str_int pid)"

definition order_line :: "ustr option \<Rightarrow> int \<Rightarrow> ustr" where
  "order_line time_str pid =
     (case time_str of
        Some ts \<Rightarrow> ascii ''['' @ [128722] @ ascii '' '' @ [19979, 21333] @ ascii ''] '' @ ts @ ascii '' - ''
                     @ [21830, 21697] @ ascii ''ID:'' @ str_int pid
      | None \<Rightarrow> ascii ''['' @ [128722] @ ascii '' '' @ [19979, 21333] @ ascii ''] ''
                     @ [21830, 21697] @ ascii ''ID:'' @ str_int pid)"

definition parseLiveShoppingMsg ::
  "pyrt \<Rightarrow> 'm codec \<Rightarrow> ('m, 'w) fetcher \<Rightarrow> bytes \<Rightarrow> 'w action" where
  "parseLiveShoppingMsg rt cd f payload =
     try_except
       (case parse_LiveShoppingMessage cd payload of
          Inl e \<Rightarrow> throw e
        | Inr message \<Rightarrow>
            let mt = getattr (msg_type message) 0;
                pid = getattr (promotion_id message) 0;
                ct = (case common message of None \<Rightarrow> 0 | Some c \<Rightarrow> getattr (create_time c) 0);
                operation = type_map mt
            in then_do
                 (if ct > 0
                  then (case strftime_HMS_local rt ct of
                          Inl e \<Rightarrow> throw e
                        | Inr ts \<Rightarrow> call (on_error f) (shopping_line (Some ts) operation pid))
                  else call (on_error f) (shopping_line None operation pid))
                 (if mt = 2
                  then (if ct > 0
                        then (case strftime_HMS_local rt ct of
                                Inl e \<Rightarrow> throw e
                              | Inr ts \<Rightarrow> call (on_error f) (order_line (Some ts) pid))
                        else call (on_error f) (order_line None pid))
                  else ok))
       (\<lambda>e. if_set (on_error f)
               (ascii ''['' @ [30452, 25773, 36141, 29289, 35299, 26512, 38169, 35823] @ ascii ''] '' @ e))"

definition ecom_keywords :: "ustr list" where
  "ecom_keywords =
     [ascii ''Product'', ascii ''Order'', ascii ''Buy'', ascii ''Cart'', ascii ''Item'', ascii ''Goods'',
      ascii ''Purchase'', ascii ''Sale'', ascii ''Shop'', ascii ''Commerce'', ascii ''Ecom'',
      ascii ''Refresh'', ascii ''Update'']"

definition order_prefix :: ustr where
  "order_prefix = ascii ''['' @ [19979, 21333] @ ascii ''] ''"

definition parseLiveEcomGeneralMsg :: "('m, 'w) fetcher \<Rightarrow> bytes \<Rightarrow> 'w action" where
  "parseLiveEcomGeneralMsg f payload =
     try_except
       (let data_length = length payload;
            hex_data = bytes_hex payload
        in try_except
             (let decoded_text = hex_scan hex_data;
                  found_keywords = filter (\<lambda>kw. str_contains kw decoded_text) ecom_keywords
              in if found_keywords \<noteq> []
                 then (case on_error f of
                         None \<Rightarrow> ok
                       | Some cb \<Rightarrow>
                           then_do
                             (cb (order_prefix @ [29992, 25143, 19979, 21333, 21830, 21697] @ ascii '' - ''
                                    @ [20851, 38190, 35789] @ ascii '': ''
                                    @ str_join (ascii '', '') found_keywords))
                             (cb (order_prefix @ [35814, 32454, 20449, 24687] @ ascii '': ''
                                    @ take 200 decoded_text @ ascii ''...'')))
                 else (case on_error f of
                         None \<Rightarrow> ok
                       | Some cb \<Rightarrow>
                           then_do
                             (cb (order_prefix @ [29992, 25143, 19979, 21333, 21830, 21697] @ ascii '' - ''
                                    @ [25968, 25454, 38271, 24230] @ ascii '': '' @ str_nat data_length))
                             (cb (order_prefix @ [35814, 32454, 20449, 24687] @ ascii '': ''
                                    @ take 100 decoded_text @ ascii ''...''))))
             (\<lambda>decode_error.
                case on_error f of
                  None \<Rightarrow> ok
                | Some cb \<Rightarrow>
                    then_do
                      (cb (order_prefix @ [29992, 25143, 19979, 21333, 21830, 21697] @ ascii '' - ''
                             @ [35299, 26512, 22833, 36133]))
                      (cb (order_prefix @ [21407, 22987, 25968, 25454] @ ascii '': ''
                             @ take 100 hex_data @ ascii ''...''))))
       (\<lambda>e. if_set (on_error f)
               (order_prefix @ [29992, 25143, 19979, 21333, 21830, 21697] @ ascii '' - ''
                  @ [22788, 29702, 24322, 24120] @ ascii '': '' @ e))"

subsection \<open>Readable-text extraction\<close>

definition readable :: "pyrt \<Rightarrow> nat \<Rightarrow> bool" where
  "readable rt c = (isprintable rt c \<and> 32 \<le> c)"

text \<open>
  The loop of lines 523-534 over the decoded text, with the part being built as an
  accumulator; the result is \<open>readable_parts\<close> after the final flush.
\<close>

fun readable_runs :: "(nat \<Rightarrow> bool) \<Rightarrow> ustr \<Rightarrow> ustr \<Rightarrow> ustr list" where
  "readable_runs p [] current_part =
     (if current_part \<noteq> [] \<and> length current_part > 3 then [current_part] else [])"
| "readable_runs p (c # cs) current_part =
     (if p c then readable_runs p cs (current_part @ [c])
      else if length current_part > 3 then current_part # readable_runs p cs []
      else readable_runs p cs [])"

definition content_keywords :: "ustr list" where
  "content_keywords =
     [[29992, 25143], [21830, 21697], [35746, 21333], [36141, 20080], [19979, 21333],
      [36141, 29289], [20215, 26684], [25968, 37327], [21517, 31216], [25551, 36848],
      [26102, 38388], [29366, 24577]]"

definition extractReadableContent :: "pyrt \<Rightarrow> bytes \<Rightarrow> ustr option" where
  "extractReadableContent rt payload =
     (let decoded_text = decode_utf8_ignore rt payload;
          readable_chars = filter (readable rt) decoded_text
      in if length readable_chars > 5 then Some (take 200 readable_chars)
         else
           let readable_parts = readable_runs (readable rt) (hex_scan (bytes_hex payload)) []
           in if readable_parts \<noteq> [] then Some (take 200 (str_join (ascii '' '') readable_parts))
              else
                let found_keywords = filter (\<lambda>kw. str_contains kw decoded_text) content_keywords
                in if found_keywords \<noteq> []
                   then Some ([21253, 21547, 20851, 38190, 35789] @ ascii '': ''
                                @ str_join (ascii '', '') found_keywords)
                   else None)"

subsection \<open>Dispatch of one \<open>Response\<close>\<close>

definition useless_message_types :: "ustr list" where
  "useless_message_types =
     [ascii ''WebcastRanklistHourEntranceMessage'', ascii ''WebcastInRoomBannerMessage'',
      ascii ''WebcastGiftSortMessage'', ascii ''WebcastRoomStreamAdaptationMessage'',
      ascii ''WebcastRoomRankMessage'', ascii ''WebcastFansclubMessage'', ascii ''WebcastRoomMessage'',
      ascii ''WebcastRoomUserSeqMessage'', ascii ''WebcastRoomStatsMessage'',
      ascii ''WebcastControlMessage'']"

definition shopping_message_types :: "ustr list" where
  "shopping_message_types =
     [ascii ''WebcastProductChangeMessage'', ascii ''WebcastLiveShoppingMessage'',
      ascii ''WebcastLiveEcomGeneralMessage'']"

definition core_message_types :: "ustr list" where
  "core_message_types =
     [ascii ''WebcastChatMessage'', ascii ''WebcastGiftMessage'', ascii ''WebcastMemberMessage'',
      ascii ''WebcastLikeMessage'', ascii ''WebcastSocialMessage'', ascii ''WebcastEmojiChatMessage'']"

definition shopping_keywords :: "ustr list" where
  "shopping_keywords =
     [ascii ''Shopping'', ascii ''Ecom'', ascii ''Product'', ascii ''Order'', ascii ''Buy'',
      ascii ''Purchase'', ascii ''Cart'', ascii ''Item'', ascii ''Goods'', ascii ''Trade'',
      ascii ''Commerce'', ascii ''Sale'', ascii ''Shop'']"

definition has_shopping_keywords :: "ustr \<Rightarrow> bool" where
  "has_shopping_keywords method = list_ex (\<lambda>keyword. str_contains keyword method) shopping_keywords"

text \<open>Lines 138-147: what goes to the diagnostic handler for a message that is not core.\<close>

definition report_message :: "pyrt \<Rightarrow> ('m, 'w) fetcher \<Rightarrow> ustr \<Rightarrow> bytes \<Rightarrow> 'w action" where
  "report_message rt f method payload =
     (let is_useless_message = method \<in> set useless_message_types;
          is_shopping_message = method \<in> set shopping_message_types;
          is_core_message = method \<in> set core_message_types
      in case on_error f of
           None \<Rightarrow> ok
         | Some cb \<Rightarrow>
             if \<not> is_useless_message \<and> \<not> is_core_message then
               (if is_shopping_message \<or> has_shopping_keywords method
                then cb (ascii ''['' @ [28040, 24687, 31867, 22411] @ ascii ''] '' @ method @ ascii '' - ''
                           @ [25968, 25454, 38271, 24230] @ ascii '': '' @ str_nat (length payload))
                else (case extractReadableContent rt payload of
                        None \<Rightarrow> ok
                      | Some readable_content \<Rightarrow>
                          if readable_content \<noteq> []
                          then cb (ascii ''['' @ [128269] @ ascii '' '' @ [26410, 30693, 28040, 24687]
                                     @ ascii ''] '' @ method @ ascii '' - '' @ [20869, 23481] @ ascii '': ''
                                     @ readable_content)
                          else ok))
             else ok)"

text \<open>Lines 150-176: the chain of \<open>if\<close>/\<open>elif\<close> over the method name.\<close>

definition dispatch :: "pyrt \<Rightarrow> 'm codec \<Rightarrow> ('m, 'w) fetcher \<Rightarrow> ustr \<Rightarrow> bytes \<Rightarrow> 'w action" where
  "dispatch rt cd f method payload =
     (if method = ascii ''WebcastChatMessage'' \<and> on_chat f \<noteq> None then parseChatMsg cd f payload
      else if method = ascii ''WebcastGiftMessage'' \<and> on_gift f \<noteq> None then parseGiftMsg cd f payload
      else if method = ascii ''WebcastMemberMessage'' \<and> on_member f \<noteq> None
        then parseMemberMsg cd f payload
      else if method = ascii ''WebcastLikeMessage'' \<and> on_like f \<noteq> None then parseLikeMsg cd f payload
      else if method = ascii ''WebcastSocialMessage'' \<and> on_social f \<noteq> None
        then parseSocialMsg cd f payload
      else if method = ascii ''WebcastEmojiChatMessage'' \<and> on_emoji_chat f \<noteq> None
        then parseEmojiChatMsg cd f payload
      else if method = ascii ''WebcastRoomUserSeqMessage'' \<and> on_room_user_seq f \<noteq> None
        then parseRoomUserSeqMsg cd f payload
      else if method = ascii ''WebcastRoomStatsMessage'' \<and> on_room_stats f \<noteq> None
        then parseRoomStatsMsg cd f payload
      else if method = ascii ''WebcastControlMessage'' \<and> on_control f \<noteq> None
        then parseControlMsg cd f payload
      else if method = ascii ''WebcastProductChangeMessage'' then parseProductChangeMsg cd f payload
      else if method = ascii ''WebcastLiveShoppingMessage'' then parseLiveShoppingMsg rt cd f payload
      else if method = ascii ''WebcastLiveEcomGeneralMessage'' then parseLiveEcomGeneralMsg f payload
      else ok)"

text \<open>Lines 88-179: the body of the loop, with its own \<open>try\<close>.\<close>

definition handle_message :: "pyrt \<Rightarrow> 'm codec \<Rightarrow> ('m, 'w) fetcher \<Rightarrow> Message \<Rightarrow> 'w action" where
  "handle_message rt cd f msg =
     try_except
       (then_do (if_set (on_raw_message f) (msg_method msg, msg_payload msg))
          (then_do (report_message rt f (msg_method msg) (msg_payload msg))
             (dispatch rt cd f (msg_method msg) (msg_payload msg))))
       (\<lambda>e. if_set (on_error f)
               (ascii ''['' @ [28040, 24687, 35299, 26512, 24322, 24120] @ ascii ''] '' @ msg_method msg
                  @ ascii '': '' @ e))"

definition wsOnMessage :: "pyrt \<Rightarrow> 'm codec \<Rightarrow> ('m, 'w) fetcher \<Rightarrow> bytes \<Rightarrow> 'w conn action" where
  "wsOnMessage rt cd f message =
     try_except
       (then_do (on_app (if_set (on_raw_message f) (ascii ''WebSocketRawMessage'', message)))
          (case parse_PushFrame cd message of
             Inl e \<Rightarrow> throw e
           | Inr package \<Rightarrow>
               (case gzip_decompress cd (frame_payload package) of
                  Inl e \<Rightarrow> throw e
                | Inr raw \<Rightarrow>
                    (case parse_Response cd raw of
                       Inl e \<Rightarrow> throw e
                     | Inr response \<Rightarrow>
                         then_do
                           (if need_ack response
                            then (case utf8_encode (internal_ext response) of
                                    Inl e \<Rightarrow> throw e
                                  | Inr token \<Rightarrow>
                                      ws_send \<lparr>log_id = log_id package, payload_type = ascii ''ack'',
                                               frame_payload = token\<rparr> OPCODE_BINARY)
                            else ok)
                           (on_app (for_each (handle_message rt cd f) (messages_list response)))))))
       (\<lambda>e. on_app (if_set (on_error f)
               (ascii ''['' @ [28040, 24687, 35299, 26512, 38169, 35823] @ ascii ''] '' @ e)))"

subsection \<open>The duplicate check\<close>

text \<open>
  \<open>_isDuplicateMessage\<close> imports \<open>hashlib\<close> inside its own body (line 392), which binds
  the name there only. \<open>_extractMessageSignature\<close> has no import of its own and the module
  imports \<open>threading\<close>, \<open>websocket\<close> and the protobuf classes (lines 1-6), so in it the
  name \<open>hashlib\<close> is looked up among the module's globals: \<open>module_hashlib\<close> is what is
  bound there. Where nothing is bound the lookup raises \<open>NameError\<close>, which the bare
  \<open>except: pass\<close> around each branch swallows, and the method falls through to
  \<open>return None\<close>.
\<close>

definition cache_timeout :: real where
  "cache_timeout = 2"

definition module_hashlib :: "(bytes \<Rightarrow> ustr) option" where
  "module_hashlib = None"

definition md5_of :: "(bytes \<Rightarrow> ustr) \<Rightarrow> ustr \<Rightarrow> exn + ustr" where
  "md5_of md5 s = (case utf8_encode s of Inl e \<Rightarrow> Inl e | Inr bs \<Rightarrow> Inr (md5 bs))"

definition hashed :: "(bytes \<Rightarrow> ustr) option \<Rightarrow> ustr \<Rightarrow> ustr option" where
  "hashed hashlib signature =
     (case hashlib of
        None \<Rightarrow> None
      | Some md5 \<Rightarrow> (case md5_of md5 signature of Inl e \<Rightarrow> None | Inr h \<Rightarrow> Some h))"

definition extractMessageSignature ::
  "(bytes \<Rightarrow> ustr) option \<Rightarrow> pyrt \<Rightarrow> 'm codec \<Rightarrow> ustr \<Rightarrow> bytes \<Rightarrow> ustr option" where
  "extractMessageSignature hashlib rt cd method payload =
     (if method = ascii ''WebcastLiveEcomGeneralMessage'' then
        (if str_contains (ascii ''ProductRefreshMessage'') (decode_utf8_ignore rt payload)
         then hashed hashlib (method @ ascii ''_'' @ repr_bytes rt (take 100 payload))
         else None)
      else if method = ascii ''WebcastLiveShoppingMessage'' then
        (case parse_LiveShoppingMessage cd payload of
           Inl e \<Rightarrow> None
         | Inr message \<Rightarrow>
             let pid = getattr (promotion_id message) 0;
                 ct = (case common message of None \<Rightarrow> 0 | Some c \<Rightarrow> getattr (create_time c) 0);
                 time_second = (if ct > 0 then ct div 1000 else 0)
             in hashed hashlib (method @ ascii ''_'' @ str_int pid @ ascii ''_'' @ str_int time_second))
      else if method = ascii ''WebcastProductChangeMessage'' then
        (case parse_ProductChangeMessage cd payload of
           Inl e \<Rightarrow> None
         | Inr message \<Rightarrow>
             let update_timestamp = getattr (updateTimestamp message) 0;
                 toast = getattr (updateToast message) [];
                 time_second = (if update_timestamp > 0 then update_timestamp div 1000 else 0)
             in hashed hashlib (method @ ascii ''_'' @ str_int time_second @ ascii ''_'' @ toast))
      else None)"

definition purge :: "real \<Rightarrow> (ustr \<rightharpoonup> real) \<Rightarrow> (ustr \<rightharpoonup> real)" where
  "purge current_time message_cache =
     (\<lambda>k. case message_cache k of
             None \<Rightarrow> None
           | Some v \<Rightarrow> if current_time - v > cache_timeout then None else Some v)"

text \<open>The debugging line through the guarded \<open>on_error\<close>, then \<open>return result\<close>.\<close>

definition debug_return ::
  "('m, 'w) fetcher \<Rightarrow> ustr \<Rightarrow> bool \<Rightarrow> (ustr \<rightharpoonup> real) \<Rightarrow> 'w \<Rightarrow> (exn + bool) \<times> ((ustr \<rightharpoonup> real) \<times> 'w)" where
  "debug_return f line result cache w =
     (case if_set (on_error f) line w of
        (Inl e, w') \<Rightarrow> (Inl e, (cache, w'))
      | (Inr u, w') \<Rightarrow> (Inr result, (cache, w')))"

definition isDuplicateMessage ::
  "pyrt \<Rightarrow> 'm codec \<Rightarrow> ('m, 'w) fetcher \<Rightarrow> real \<Rightarrow> ustr \<Rightarrow> bytes
     \<Rightarrow> (bool, (ustr \<rightharpoonup> real) \<times> 'w) comp" where
  "isDuplicateMessage rt cd f current_time method payload st =
     (let cache = purge current_time (fst st);
          w = snd st;
          debug = ascii ''['' @ [35843, 35797] @ ascii ''] '';
          seen = [26816, 27979, 21040, 37325, 22797, 28040, 24687];
          cached = [26032, 28040, 24687, 24050, 32531, 23384];
          backup = ascii ''('' @ [22791, 29992] @ ascii '')''
      in if method \<in> set [ascii ''WebcastLiveEcomGeneralMessage'', ascii ''WebcastLiveShoppingMessage'',
                           ascii ''WebcastProductChangeMessage'']
         then
           (let content_signature = extractMessageSignature module_hashlib rt cd method payload
            in if \<not> falsy content_signature
               then
                 (let sg = getattr content_signature []
                  in if cache sg \<noteq> None
                     then debug_return f (debug @ seen @ ascii '': '' @ method @ ascii '', ''
                            @ [31614, 21517] @ ascii '': '' @ take 16 sg @ ascii ''...'') True cache w
                     else debug_return f (debug @ cached @ ascii '': '' @ method @ ascii '', ''
                            @ [31614, 21517] @ ascii '': '' @ take 16 sg @ ascii ''...'') False
                            (cache(sg \<mapsto> current_time)) w)
               else
                 (case md5_of (md5_hexdigest rt) (method @ ascii ''_'' @ repr_bytes rt payload) of
                    Inl e \<Rightarrow> (Inl e, (cache, w))
                  | Inr message_hash \<Rightarrow>
                      if cache message_hash \<noteq> None
                      then debug_return f (debug @ seen @ backup @ ascii '': '' @ method
                             @ ascii '', hash: '' @ take 16 message_hash @ ascii ''...'') True cache w
                      else debug_return f (debug @ cached @ backup @ ascii '': '' @ method
                             @ ascii '', hash: '' @ take 16 message_hash @ ascii ''...'') False
                             (cache(message_hash \<mapsto> current_time)) w))
         else
           (case md5_of (md5_hexdigest rt) (method @ ascii ''_'' @ repr_bytes rt payload) of
              Inl e \<Rightarrow> (Inl e, (cache, w))
            | Inr message_hash \<Rightarrow>
                if cache message_hash \<noteq> None then (Inr True, (cache, w))
                else (Inr False, (cache(message_hash \<mapsto> current_time), w))))"

subsection \<open>The diagnostic callback the manager registers\<close>

text \<open>
  Line 49 of \<open>barrage_manager.py\<close>: \<open>on_error=lambda msg: self._handle_error_message(recording_id, msg)\<close>.
  The handler catches every exception, so as an action it always returns.
\<close>

definition on_error_callback :: "env \<Rightarrow> ustr \<Rightarrow> ustr \<Rightarrow> world action" where
  "on_error_callback ev rid msg w = (Inr (), handle_error_message ev rid msg w)"

section \<open>Vocabulary of the statements\<close>

text \<open>
  The substring after the final occurrence of a character and the one before its first
  occurrence, in the words of the specification.
\<close>

definition before_first :: "'a \<Rightarrow> 'a list \<Rightarrow> 'a list" where
  "before_first c s = takeWhile (\<lambda>x. x \<noteq> c) s"

definition after_final :: "'a \<Rightarrow> 'a list \<Rightarrow> 'a list" where
  "after_final c s = rev (takeWhile (\<lambda>x. x \<noteq> c) (rev s))"

text \<open>
  A callback is quiet when it never raises. The transcript of a session is what has been
  written to its file; \<open>system_lines\<close> are the lines that the diagnostic callback writes
  for a list of messages, the first at clock reading \<open>k\<close>.
\<close>

definition quiet :: "('a \<Rightarrow> 's action) option \<Rightarrow> bool" where
  "quiet cb = (\<forall>h. cb = Some h \<longrightarrow> (\<forall>x s. fst (h x s) = Inr ()))"

definition transcript :: "world \<Rightarrow> ustr \<Rightarrow> ustr list" where
  "transcript w path = getattr (files w path) []"

definition system_line :: "env \<Rightarrow> nat \<Rightarrow> ustr \<Rightarrow> ustr" where
  "system_line ev k text =
     ascii ''['' @ now_strftime ev k (ascii ''%H:%M:%S'') @ ascii ''] ''
       @ ascii ''['' @ [31995, 32479] @ ascii ''] '' @ text @ [10]"

fun system_lines :: "env \<Rightarrow> nat \<Rightarrow> ustr list \<Rightarrow> ustr list" where
  "system_lines ev k [] = []"
| "system_lines ev k (t # ts) = system_line ev k t # system_lines ev (Suc k) ts"

text \<open>
  What the fetcher reports for one live-shopping message: the line with the type and the
  length, the line of the action, and for an order (type 2) the order line.
\<close>

definition type_line :: "Message \<Rightarrow> ustr" where
  "type_line m =
     ascii ''['' @ [28040, 24687, 31867, 22411] @ ascii ''] '' @ msg_method m @ ascii '' - ''
       @ [25968, 25454, 38271, 24230] @ ascii '': '' @ str_nat (length (msg_payload m))"

definition shopping_report :: "pyrt \<Rightarrow> LiveShoppingMessage \<Rightarrow> ustr list" where
  "shopping_report rt message =
     (let mt = getattr (msg_type message) 0;
          pid = getattr (promotion_id message) 0;
          ct = (case common message of None \<Rightarrow> 0 | Some c \<Rightarrow> getattr (create_time c) 0);
          time_str = (if ct > 0
                      then (case strftime_HMS_local rt ct of Inl e \<Rightarrow> None | Inr ts \<Rightarrow> Some ts)
                      else None)
      in shopping_line time_str (type_map mt) pid # (if mt = 2 then [order_line time_str pid] else []))"

definition shopping_ok :: "pyrt \<Rightarrow> 'm codec \<Rightarrow> Message \<Rightarrow> bool" where
  "shopping_ok rt cd m =
     (msg_method m = ascii ''WebcastLiveShoppingMessage'' \<and>
      (case parse_LiveShoppingMessage cd (msg_payload m) of
         Inl e \<Rightarrow> False
       | Inr message \<Rightarrow>
           (case common message of
              None \<Rightarrow> True
            | Some c \<Rightarrow> getattr (create_time c) 0 > 0 \<longrightarrow> (case strftime_HMS_local rt (getattr (create_time c) 0) of Inl e \<Rightarrow> False | Inr ts \<Rightarrow> True))))"

definition shopping_texts :: "pyrt \<Rightarrow> 'm codec \<Rightarrow> Message \<Rightarrow> ustr list" where
  "shopping_texts rt cd m =
     (case parse_LiveShoppingMessage cd (msg_payload m) of
        Inl e \<Rightarrow> []
      | Inr message \<Rightarrow> type_line m # shopping_report rt message)"

definition is_shopping_line :: "ustr \<Rightarrow> bool" where
  "is_shopping_line text = prefix (ascii ''['' @ [30452, 25773, 36141, 29289] @ ascii '']'') text"

text \<open>
  The nine typed parsers as rows: the method name, the decoder, the callback and the label
  under which the parser reports an exception (lines 184-212 and 329-387, and the chain of
  lines 150-167). The labels of the two commerce parsers that decode (lines 226 and 272),
  and the two lines that the general e-commerce parser reports for a payload (lines
  304-317).
\<close>

definition typed_parsers ::
  "'m codec \<Rightarrow> ('m, 'w) fetcher
     \<Rightarrow> (ustr \<times> (bytes \<Rightarrow> exn + 'm) \<times> ('m \<Rightarrow> 'w action) option \<times> ustr) list" where
  "typed_parsers cd f =
     [(ascii ''WebcastChatMessage'', parse_ChatMessage cd, on_chat f,
         ascii ''['' @ [24377, 24149, 35299, 26512, 38169, 35823] @ ascii ''] ''),
      (ascii ''WebcastGiftMessage'', parse_GiftMessage cd, on_gift f,
         ascii ''['' @ [31036, 29289, 35299, 26512, 38169, 35823] @ ascii ''] ''),
      (ascii ''WebcastMemberMessage'', parse_MemberMessage cd, on_member f,
         ascii ''['' @ [35266, 20247, 36827, 20837, 35299, 26512, 38169, 35823] @ ascii ''] ''),
      (ascii ''WebcastLikeMessage'', parse_LikeMessage cd, on_like f,
         ascii ''['' @ [28857, 36190, 35299, 26512, 38169, 35823] @ ascii ''] ''),
      (ascii ''WebcastSocialMessage'', parse_SocialMessage cd, on_social f,
         ascii ''['' @ [20851, 27880, 35299, 26512, 38169, 35823] @ ascii ''] ''),
      (ascii ''WebcastEmojiChatMessage'', parse_EmojiChatMessage cd, on_emoji_chat f,
         ascii ''['' @ [34920, 24773, 24377, 24149, 35299, 26512, 38169, 35823] @ ascii ''] ''),
      (ascii ''WebcastRoomUserSeqMessage'', parse_RoomUserSeqMessage cd, on_room_user_seq f,
         ascii ''['' @ [25151, 38388, 29992, 25143, 24207, 21015, 35299, 26512, 38169, 35823] @ ascii ''] ''),
      (ascii ''WebcastRoomStatsMessage'', parse_RoomStatsMessage cd, on_room_stats f,
         ascii ''['' @ [25151, 38388, 32479, 35745, 35299, 26512, 38169, 35823] @ ascii ''] ''),
      (ascii ''WebcastControlMessage'', parse_ControlMessage cd, on_control f,
         ascii ''['' @ [25511, 21046, 28040, 24687, 35299, 26512, 38169, 35823] @ ascii ''] '')]"

definition product_change_error :: ustr where
  "product_change_error = ascii ''['' @ [21830, 21697, 21464, 26356, 35299, 26512, 38169, 35823] @ ascii ''] ''"

definition live_shopping_error :: ustr where
  "live_shopping_error = ascii ''['' @ [30452, 25773, 36141, 29289, 35299, 26512, 38169, 35823] @ ascii ''] ''"

definition ecom_report :: "bytes \<Rightarrow> ustr list" where
  "ecom_report p =
     (let decoded_text = hex_scan (bytes_hex p);
          found_keywords = filter (\<lambda>kw. str_contains kw decoded_text) ecom_keywords
      in if found_keywords \<noteq> []
         then [order_prefix @ [29992, 25143, 19979, 21333, 21830, 21697] @ ascii '' - ''
                 @ [20851, 38190, 35789] @ ascii '': '' @ str_join (ascii '', '') found_keywords,
               order_prefix @ [35814, 32454, 20449, 24687] @ ascii '': '' @ take 200 decoded_text
                 @ ascii ''...'']
         else [order_prefix @ [29992, 25143, 19979, 21333, 21830, 21697] @ ascii '' - ''
                 @ [25968, 25454, 38271, 24230] @ ascii '': '' @ str_nat (length p),
               order_prefix @ [35814, 32454, 20449, 24687] @ ascii '': '' @ take 100 decoded_text
                 @ ascii ''...''])"


section \<open>Sample inputs\<close>

text \<open>
  A clock that stands still, a file system that accepts every write, and a session
  \<open>rec1\<close> that records to \<open>out/b.txt\<close>.
\<close>

definition sample_env :: env where
  "sample_env =
     \<lparr>now_strftime = (\<lambda>k fmt. if fmt = ascii ''%H:%M:%S'' then ascii ''12:00:00''
                              else if fmt = ascii ''%Y%m%d_%H%M%S'' then ascii ''20250101_120000''
                              else ascii ''2025-01-01 12:00:00''),
      can_makedirs = (\<lambda>d. True),
      writable = (\<lambda>p. True),
      os_error = (\<lambda>p. ascii ''Permission denied''),
      path_join = (\<lambda>d f. d @ 47 # f)\<rparr>"

definition empty_world :: world where
  "empty_world = \<lparr>active_fetchers = Map.empty, barrage_files = Map.empty, files = Map.empty,
                   logged = [], ticks = 0\<rparr>"

definition recording_world :: world where
  "recording_world =
     \<lparr>active_fetchers = [ascii ''rec1'' \<mapsto>
          \<lparr>live_id = ascii ''123456'', recording_id = ascii ''rec1'', barrage_file = ascii ''out/b.txt''\<rparr>],
      barrage_files = [ascii ''rec1'' \<mapsto> ascii ''out/b.txt''],
      files = [ascii ''out/b.txt'' \<mapsto> []],
      logged = [], ticks = 0\<rparr>"

definition anonymous_member :: MemberMessage where
  "anonymous_member = \<lparr>user = \<lparr>nick_name = Some (ascii ''Alice''), gender = None\<rparr>\<rparr>"

text \<open>
  Stand-ins for the libraries. The decoder and \<open>isprintable\<close> agree with Python on
  ASCII input, \<open>repr_bytes\<close> on bytes other than tab, newline and carriage return, the
  clock is UTC, and the digest is the identity on the encoded text (injective, as the
  samples need it). The codec reads a frame as its log id, takes the response as given and
  reads a live-shopping payload of three bytes as message type, promotion id and the
  milliseconds after 1700000000 s. Beside them: a fetcher whose gift callback raises, a
  codec whose product-change decoder fails, and a runtime whose \<open>strftime\<close> fails.
\<close>

definition two_digits :: "nat \<Rightarrow> ustr" where
  "two_digits n = [48 + n div 10, 48 + n mod 10]"

definition sample_rt :: pyrt where
  "sample_rt =
     \<lparr>decode_utf8_ignore = (\<lambda>b. map unat (filter (\<lambda>x. x < 128) b)),
      isprintable = (\<lambda>c. 32 \<le> c \<and> c < 127),
      repr_bytes =
        (\<lambda>bs. ascii ''b'' @ [39]
           @ concat (map (\<lambda>b. if 32 \<le> unat b \<and> unat b < 127 \<and> unat b \<noteq> 39 \<and> unat b \<noteq> 92
                                then [unat b]
                                else [92, 120, hex_digit (unat b div 16), hex_digit (unat b mod 16)]) bs)
           @ [39]),
      md5_hexdigest = (\<lambda>b. map unat b),
      strftime_HMS_local =
        (\<lambda>ms. let t = nat (ms div 1000)
              in Inr (two_digits (t div 3600 mod 24) @ ascii '':'' @ two_digits (t div 60 mod 60)
                        @ ascii '':'' @ two_digits (t mod 60)))\<rparr>"

definition sample_object :: "bytes \<Rightarrow> exn + nat" where
  "sample_object b = (if b = [] then Inl (ascii ''truncated'') else Inr (length b))"

definition sample_shopping :: "bytes \<Rightarrow> exn + LiveShoppingMessage" where
  "sample_shopping b =
     (case b of
        [t, p, ms] \<Rightarrow>
          Inr \<lparr>common = Some \<lparr>create_time = Some (1700000000000 + int (unat ms))\<rparr>,
               msg_type = Some (int (unat t)), promotion_id = Some (int (unat p))\<rparr>
      | _ \<Rightarrow> Inl (ascii ''truncated''))"

definition sample_codec :: "Response \<Rightarrow> nat codec" where
  "sample_codec response =
     \<lparr>parse_PushFrame =
        (\<lambda>b. case b of
                [] \<Rightarrow> Inl (ascii ''truncated'')
              | l # rest \<Rightarrow> Inr \<lparr>log_id = ucast l, payload_type = ascii ''msg'', frame_payload = rest\<rparr>),
      gzip_decompress = Inr,
      parse_Response = (\<lambda>b. Inr response),
      parse_ChatMessage = sample_object,
      parse_GiftMessage = sample_object,
      parse_MemberMessage = sample_object,
      parse_LikeMessage = sample_object,
      parse_SocialMessage = sample_object,
      parse_EmojiChatMessage = sample_object,
      parse_RoomUserSeqMessage = sample_object,
      parse_RoomStatsMessage = sample_object,
      parse_ControlMessage = sample_object,
      parse_ProductChangeMessage =
        (\<lambda>b. Inr \<lparr>update_toast = Some (map unat b), updateTimestamp = None, updateToast = None\<rparr>),
      parse_LiveShoppingMessage = sample_shopping\<rparr>"

definition sample_fetcher :: "(nat, world) fetcher" where
  "sample_fetcher =
     \<lparr>on_chat = Some (\<lambda>m. ok), on_gift = Some (\<lambda>m. ok), on_member = Some (\<lambda>m. ok),
      on_like = Some (\<lambda>m. ok), on_social = Some (\<lambda>m. ok), on_emoji_chat = Some (\<lambda>m. ok),
      on_room_user_seq = Some (\<lambda>m. ok), on_room_stats = Some (\<lambda>m. ok), on_control = Some (\<lambda>m. ok),
      on_error = Some (on_error_callback sample_env (ascii ''rec1'')),
      on_raw_message = None\<rparr>"

definition hooked_fetcher :: "(nat, world) fetcher" where
  "hooked_fetcher = sample_fetcher\<lparr>on_raw_message := Some (\<lambda>x. throw (ascii ''hook failed''))\<rparr>"

definition mute_fetcher :: "(nat, world) fetcher" where
  "mute_fetcher = sample_fetcher\<lparr>on_error := None\<rparr>"

definition sample_conn :: "world conn" where
  "sample_conn = \<lparr>ws_sent = [], ws_connected = True, app = recording_world\<rparr>"

definition three_orders :: Response where
  "three_orders =
     \<lparr>need_ack = False, internal_ext = [],
      messages_list =
        [\<lparr>msg_method = ascii ''WebcastLiveShoppingMessage'', msg_payload = [2, 99, 100]\<rparr>,
         \<lparr>msg_method = ascii ''WebcastLiveShoppingMessage'', msg_payload = [2, 99, 200]\<rparr>,
         \<lparr>msg_method = ascii ''WebcastLiveShoppingMessage'', msg_payload = [2, 99, 250]\<rparr>]\<rparr>"

definition gift_then_order :: Response where
  "gift_then_order =
     \<lparr>need_ack = False, internal_ext = [],
      messages_list =
        [\<lparr>msg_method = ascii ''WebcastGiftMessage'', msg_payload = []\<rparr>,
         \<lparr>msg_method = ascii ''WebcastLiveShoppingMessage'', msg_payload = [2, 99, 100]\<rparr>]\<rparr>"

definition ack_request :: Response where
  "ack_request = \<lparr>need_ack = True, internal_ext = ascii ''tok123'', messages_list = []\<rparr>"




definition raising_fetcher :: "(nat, world) fetcher" where
  "raising_fetcher = sample_fetcher\<lparr>on_gift := Some (\<lambda>m. throw (ascii ''boom''))\<rparr>"

definition failing_codec :: "nat codec" where
  "failing_codec =
     (sample_codec ack_request)\<lparr>parse_ProductChangeMessage := (\<lambda>b. Inl (ascii ''truncated''))\<rparr>"

definition failing_rt :: pyrt where
  "failing_rt =
     sample_rt\<lparr>strftime_HMS_local := (\<lambda>ms. Inl (ascii ''timestamp out of range for platform time_t''))\<rparr>"

section \<open>Room-id extraction\<close>

lemma split_char_not_Nil: "split_char c s \<noteq> []"
  by (induction s) (auto split: list.splits)

lemma hd_split_char: "hd (split_char c s) = before_first c s"
  by (induction s) (auto simp: before_first_def split_char_not_Nil split: list.splits)

lemma split_char_absent: "c \<notin> set s \<Longrightarrow> split_char c s = [s]"
  by (induction s) auto

lemma split_char_single: "split_char c s = [y] \<Longrightarrow> c \<notin> set s"
  by (induction s arbitrary: y) (auto simp: split_char_not_Nil split: if_splits list.splits)

lemma last_split_char_Cons:
  "last (split_char c (x # xs)) =
     (if c \<in> set xs then last (split_char c xs) else if x = c then xs else x # xs)"
proof (cases "c \<in> set xs")
  case True
  then have "\<And>y. split_char c xs \<noteq> [y]" using split_char_single by fastforce
  then show ?thesis using True split_char_not_Nil[of c xs]
    by (auto split: list.splits)
next
  case False
  then show ?thesis by (simp add: split_char_absent)
qed

lemma after_final_Cons:
  "after_final c (x # xs) =
     (if c \<in> set xs then after_final c xs else if x = c then xs else x # xs)"
  by (auto simp: after_final_def takeWhile_append)

lemma last_split_char: "last (split_char c s) = after_final c s"
proof (induction s)
  case Nil
  show ?case by (simp add: after_final_def)
next
  case (Cons x xs)
  show ?case unfolding last_split_char_Cons after_final_Cons using Cons by simp
qed

lemma str_contains_sublist: "str_contains sub s \<longleftrightarrow> sublist sub s"
  by (induction s) (auto simp: sublist_Cons_right)

lemma str_contains_char: "str_contains [c] s \<longleftrightarrow> c \<in> set s"
  by (induction s) auto

lemma ascii_slash: "ascii ''/'' = [47]"
  by (simp add: ascii_def)

text \<open>
  Claim C7, as the code has it. A URL that contains \<open>live.douyin.com\<close> and a slash yields
  the substring after its final \<open>/\<close>, cut before the first \<open>?\<close> in it; every other URL
  yields nothing. The branch for \<open>v.douyin.com\<close> is reached only when
  \<open>live.douyin.com\<close> does not occur anywhere in the URL.
\<close>

theorem extract_live_id_result:
  "fst (extract_live_id url w) =
     (if str_contains (ascii ''live.douyin.com'') url \<and> 47 \<in> set url
      then Some (before_first 63 (after_final 47 url)) else None)"
  by (simp add: extract_live_id_def ascii_slash str_contains_char hd_split_char last_split_char)

text \<open>
  A direct link and a shortened link.
\<close>

theorem extract_live_id_result_witness:
  "fst (extract_live_id (ascii ''https://live.douyin.com/123456?x=1'') empty_world) = Some (ascii ''123456'')
   \<and> fst (extract_live_id (ascii ''https://v.douyin.com/iRNBho6u/'') empty_world) = None"
  using extract_live_id_result [of "ascii ''https://live.douyin.com/123456?x=1''" empty_world]
        extract_live_id_result [of "ascii ''https://v.douyin.com/iRNBho6u/''" empty_world]
  by (simp add: ascii_def before_first_def after_final_def)

text \<open>
  A shortened link whose query names \<open>live.douyin.com\<close> takes the first branch and yields
  an id, so extraction does depend on the content of a shortened link.
\<close>

theorem short_link_counterexample:
  "str_contains (ascii ''v.douyin.com'') (ascii ''https://v.douyin.com/x?r=live.douyin.com/777'')
   \<and> fst (extract_live_id (ascii ''https://v.douyin.com/x?r=live.douyin.com/777'') empty_world)
       = Some (ascii ''777'')"
  by (simp add: extract_live_id_def ascii_def)

section \<open>Starting and stopping a session\<close>

text \<open>
  Claim C9, as the code has it. \<open>stop_barrage_recording\<close> calls \<open>stop()\<close> on the
  connection before it removes anything (lines 79-83). So when
  \<open>start_barrage_recording\<close> has returned \<open>True\<close> and the connection's \<open>stop()\<close>
  returns, \<open>stop_barrage_recording\<close> returns \<open>True\<close>, the id is no longer recording and
  its transcript path is gone; for an id that is not recording it returns \<open>False\<close> and
  changes nothing.
\<close>

theorem start_then_stop:
  "(start_barrage_recording ev rid url platform dir w = (True, w1)
      \<and> (\<forall>f. active_fetchers w1 rid = Some f \<longrightarrow> stop f = None)
    \<longrightarrow> fst (stop_barrage_recording stop rid w1)
        \<and> \<not> is_recording rid (snd (stop_barrage_recording stop rid w1))
        \<and> get_barrage_file rid (snd (stop_barrage_recording stop rid w1)) = None)
   \<and> (\<not> is_recording rid w \<longrightarrow> stop_barrage_recording stop rid w = (False, w))"
proof (intro conjI impI)
  assume a: "start_barrage_recording ev rid url platform dir w = (True, w1)
      \<and> (\<forall>f. active_fetchers w1 rid = Some f \<longrightarrow> stop f = None)"
  then have "active_fetchers w1 rid \<noteq> None"
    by (auto simp: start_barrage_recording_def logger_def Let_def split: if_splits prod.splits)
  then obtain f where f: "active_fetchers w1 rid = Some f" by auto
  with a have s: "stop f = None" by simp
  show "fst (stop_barrage_recording stop rid w1)"
    by (simp add: stop_barrage_recording_def f s)
  show "\<not> is_recording rid (snd (stop_barrage_recording stop rid w1))"
    by (simp add: stop_barrage_recording_def f s is_recording_def logger_def)
  show "get_barrage_file rid (snd (stop_barrage_recording stop rid w1)) = None"
    by (simp add: stop_barrage_recording_def f s get_barrage_file_def logger_def)
next
  assume "\<not> is_recording rid w"
  then show "stop_barrage_recording stop rid w = (False, w)"
    by (simp add: stop_barrage_recording_def is_recording_def)
qed

lemma sample_start:
  "fst (start_barrage_recording sample_env (ascii ''rec1'') (ascii ''https://live.douyin.com/123456?x=1'')
     (ascii ''douyin'') [] empty_world)"
  by (simp add: start_barrage_recording_def extract_live_id_def create_barrage_file_def
      sample_env_def empty_world_def logger_def falsy_def getattr_def ascii_def Let_def)

theorem start_then_stop_witness:
  "fst (start_barrage_recording sample_env (ascii ''rec1'')
          (ascii ''https://live.douyin.com/123456?x=1'') (ascii ''douyin'') [] empty_world)
   \<and> fst (stop_barrage_recording (\<lambda>f. None) (ascii ''rec1'')
          (snd (start_barrage_recording sample_env (ascii ''rec1'')
             (ascii ''https://live.douyin.com/123456?x=1'') (ascii ''douyin'') [] empty_world)))
   \<and> \<not> is_recording (ascii ''rec1'')
        (snd (stop_barrage_recording (\<lambda>f. None) (ascii ''rec1'')
          (snd (start_barrage_recording sample_env (ascii ''rec1'')
             (ascii ''https://live.douyin.com/123456?x=1'') (ascii ''douyin'') [] empty_world))))
   \<and> get_barrage_file (ascii ''rec1'')
        (snd (stop_barrage_recording (\<lambda>f. None) (ascii ''rec1'')
          (snd (start_barrage_recording sample_env (ascii ''rec1'')
             (ascii ''https://live.douyin.com/123456?x=1'') (ascii ''douyin'') [] empty_world)))) = None
   \<and> stop_barrage_recording (\<lambda>f. None) (ascii ''rec1'') empty_world = (False, empty_world)"
proof -
  let ?s = "start_barrage_recording sample_env (ascii ''rec1'')
             (ascii ''https://live.douyin.com/123456?x=1'') (ascii ''douyin'') [] empty_world"
  have h1: "?s = (True, snd ?s)" using sample_start by (cases ?s) simp
  have h3: "\<not> is_recording (ascii ''rec1'') empty_world"
    by (simp add: is_recording_def empty_world_def)
  show ?thesis
    using start_then_stop [of sample_env "ascii ''rec1''" "ascii ''https://live.douyin.com/123456?x=1''"
        "ascii ''douyin''" "[]" empty_world "snd ?s" "\<lambda>f. None"] h1 h3 sample_start
    by blast
qed

lemma sample_start_registered:
  "active_fetchers (snd (start_barrage_recording sample_env (ascii ''rec1'')
       (ascii ''https://live.douyin.com/123456?x=1'') (ascii ''douyin'') [] empty_world)) (ascii ''rec1'') =
     Some \<lparr>live_id = ascii ''123456'', recording_id = ascii ''rec1'',
           barrage_file = ascii ''downloads/barrage_rec1_20250101_120000.txt''\<rparr>"
  "barrage_files (snd (start_barrage_recording sample_env (ascii ''rec1'')
       (ascii ''https://live.douyin.com/123456?x=1'') (ascii ''douyin'') [] empty_world)) (ascii ''rec1'') =
     Some (ascii ''downloads/barrage_rec1_20250101_120000.txt'')"
  by (simp_all add: start_barrage_recording_def extract_live_id_def create_barrage_file_def
      sample_env_def empty_world_def logger_def falsy_def getattr_def ascii_def Let_def)

text \<open>
  A start that succeeds, followed at once by a stop whose \<open>stop()\<close> raises: the stop
  returns \<open>False\<close>, the id is still recording and its transcript path is still mapped.
\<close>

theorem stop_failure_after_start_counterexample:
  "fst (start_barrage_recording sample_env (ascii ''rec1'')
          (ascii ''https://live.douyin.com/123456?x=1'') (ascii ''douyin'') [] empty_world)
   \<and> \<not> fst (stop_barrage_recording (\<lambda>f. Some (ascii ''boom'')) (ascii ''rec1'')
          (snd (start_barrage_recording sample_env (ascii ''rec1'')
             (ascii ''https://live.douyin.com/123456?x=1'') (ascii ''douyin'') [] empty_world)))
   \<and> is_recording (ascii ''rec1'')
        (snd (stop_barrage_recording (\<lambda>f. Some (ascii ''boom'')) (ascii ''rec1'')
          (snd (start_barrage_recording sample_env (ascii ''rec1'')
             (ascii ''https://live.douyin.com/123456?x=1'') (ascii ''douyin'') [] empty_world))))
   \<and> get_barrage_file (ascii ''rec1'')
        (snd (stop_barrage_recording (\<lambda>f. Some (ascii ''boom'')) (ascii ''rec1'')
          (snd (start_barrage_recording sample_env (ascii ''rec1'')
             (ascii ''https://live.douyin.com/123456?x=1'') (ascii ''douyin'') [] empty_world)))) =
       Some (ascii ''downloads/barrage_rec1_20250101_120000.txt'')"
  by (simp add: sample_start stop_barrage_recording_def sample_start_registered is_recording_def
      get_barrage_file_def logger_def)

text \<open>
  Claim C10. When \<open>stop()\<close> raises, \<open>stop_barrage_recording\<close> catches the exception and
  returns \<open>False\<close>; the session stays registered and its transcript path stays mapped.
\<close>

theorem stop_raises_keeps_session:
  "active_fetchers w rid = Some f \<Longrightarrow> stop f = Some e \<Longrightarrow>
     fst (stop_barrage_recording stop rid w) = False
   \<and> is_recording rid (snd (stop_barrage_recording stop rid w))
   \<and> active_fetchers (snd (stop_barrage_recording stop rid w)) = active_fetchers w
   \<and> barrage_files (snd (stop_barrage_recording stop rid w)) = barrage_files w"
  by (simp add: stop_barrage_recording_def is_recording_def logger_def)

theorem stop_raises_keeps_session_witness:
  "fst (stop_barrage_recording (\<lambda>f. Some (ascii ''boom'')) (ascii ''rec1'') recording_world) = False
   \<and> is_recording (ascii ''rec1'')
        (snd (stop_barrage_recording (\<lambda>f. Some (ascii ''boom'')) (ascii ''rec1'') recording_world))
   \<and> get_barrage_file (ascii ''rec1'')
        (snd (stop_barrage_recording (\<lambda>f. Some (ascii ''boom'')) (ascii ''rec1'') recording_world))
       = Some (ascii ''out/b.txt'')"
proof -
  have a: "active_fetchers recording_world (ascii ''rec1'') =
      Some \<lparr>live_id = ascii ''123456'', recording_id = ascii ''rec1'', barrage_file = ascii ''out/b.txt''\<rparr>"
    by (simp add: recording_world_def)
  have b: "barrage_files recording_world (ascii ''rec1'') = Some (ascii ''out/b.txt'')"
    by (simp add: recording_world_def)
  show ?thesis
    using stop_raises_keeps_session [OF a, of "\<lambda>f. Some (ascii ''boom'')" "ascii ''boom''"] b
    by (simp add: get_barrage_file_def)
qed

section \<open>The line of a member who joins\<close>

text \<open>
  Claim C2, as the code has it. For a session with a writable transcript the handler
  appends one line: the time stamp, the entry tag, the gender in brackets, the nick name
  and the fixed words of the template, in the order of line 189. The
  gender is \<open>zh_male\<close> for the value 1, \<open>zh_female\<close> for the value 0 and for an absent
  field (whose default is 0), and \<open>zh_unknown\<close> for every other value.
\<close>

theorem member_join_line:
  assumes "barrage_files w rid = Some path" and "writable ev path"
  shows "files (handle_member_message ev rid m w) path =
           Some (getattr (files w path) [] @
             [ascii ''['' @ now_strftime ev (ticks w) (ascii ''%H:%M:%S'') @ ascii ''] ''
                @ ascii ''['' @ [36827, 22330] @ ascii ''] [''
                @ (if gender (user m) = Some 1 then zh_male
                   else if gender (user m) = None \<or> gender (user m) = Some 0 then zh_female
                   else zh_unknown)
                @ ascii '']'' @ getattr (nick_name (user m)) []
                @ ascii '' '' @ [36827, 20837, 20102, 30452, 25773, 38388] @ [10]])"
  using assms
  by (auto simp: handle_member_message_def write_to_file_def Let_def getattr_def
      split: option.splits)

theorem member_join_line_witness:
  "files (handle_member_message sample_env (ascii ''rec1'') anonymous_member recording_world)
       (ascii ''out/b.txt'') =
     Some [ascii ''[12:00:00] ['' @ [36827, 22330] @ ascii ''] ['' @ zh_female @ ascii '']Alice ''
             @ [36827, 20837, 20102, 30452, 25773, 38388] @ [10]]"
proof -
  have a: "barrage_files recording_world (ascii ''rec1'') = Some (ascii ''out/b.txt'')"
    by (simp add: recording_world_def)
  have b: "writable sample_env (ascii ''out/b.txt'')"
    by (simp add: sample_env_def)
  show ?thesis
    using member_join_line [OF a b, of anonymous_member]
    by (simp add: anonymous_member_def recording_world_def sample_env_def getattr_def ascii_def)
qed

text \<open>
  A member whose gender field is absent is written as \<open>zh_female\<close>, not as
  \<open>zh_unknown\<close>.
\<close>

theorem absent_gender_counterexample:
  "gender (user anonymous_member) = None
   \<and> files (handle_member_message sample_env (ascii ''rec1'') anonymous_member recording_world)
       (ascii ''out/b.txt'') =
     Some [ascii ''[12:00:00] ['' @ [36827, 22330] @ ascii ''] ['' @ zh_female @ ascii '']Alice ''
             @ [36827, 20837, 20102, 30452, 25773, 38388] @ [10]]
   \<and> files (handle_member_message sample_env (ascii ''rec1'') anonymous_member recording_world)
       (ascii ''out/b.txt'') \<noteq>
     Some [ascii ''[12:00:00] ['' @ [36827, 22330] @ ascii ''] ['' @ zh_unknown @ ascii '']Alice ''
             @ [36827, 20837, 20102, 30452, 25773, 38388] @ [10]]"
  by (simp add: handle_member_message_def write_to_file_def anonymous_member_def recording_world_def
      sample_env_def getattr_def ascii_def zh_female_def zh_unknown_def Let_def)

section \<open>Exceptions and the loop over the messages\<close>

lemma if_set_quiet: "quiet cb \<Longrightarrow> fst (if_set cb x s) = Inr ()"
  by (cases cb) (auto simp: if_set_def quiet_def ok_def)

lemma try_except_returns:
  "(\<And>e s. fst (handler e s) = Inr ()) \<Longrightarrow> fst (try_except body handler s) = Inr ()"
  by (cases "body s") (auto simp: try_except_def split: sum.splits)

lemma try_except_quiet:
  "quiet rep \<Longrightarrow> fst (try_except body (\<lambda>e. if_set rep (g e)) s) = Inr ()"
  by (rule try_except_returns) (rule if_set_quiet)

lemma try_except_no_raise: "fst (a s) = Inr () \<Longrightarrow> try_except a handler s = a s"
  by (cases "a s") (auto simp: try_except_def)

lemma then_do_ok_left: "then_do ok b = b"
  by (rule ext) (simp add: then_do_def ok_def)

lemma then_do_ok_right: "then_do a ok = a"
  by (rule ext) (auto simp: then_do_def ok_def split: prod.splits sum.splits)

lemma handle_message_returns: "quiet (on_error f) \<Longrightarrow> fst (handle_message rt cd f m w) = Inr ()"
  unfolding handle_message_def by (rule try_except_quiet)

lemma for_each_fold:
  "(\<And>x s. fst (body x s) = Inr ()) \<Longrightarrow>
     for_each body xs s = (Inr (), fold (\<lambda>x s. snd (body x s)) xs s)"
proof (induction xs arbitrary: s)
  case Nil
  show ?case by (simp add: ok_def)
next
  case (Cons x xs)
  obtain s' where s': "body x s = (Inr (), s')"
    using Cons.prems [of x s] by (cases "body x s") auto
  show ?case using Cons.IH [OF Cons.prems, of s'] by (simp add: then_do_def s')
qed

lemma on_app_result: "fst (on_app a c) = fst (a (app c))"
  by (simp add: on_app_def split: prod.splits)

lemma on_app_sent: "ws_sent (snd (on_app a c)) = ws_sent c"
  by (simp add: on_app_def split: prod.splits)

lemma on_app_connected: "ws_connected (snd (on_app a c)) = ws_connected c"
  by (simp add: on_app_def split: prod.splits)

lemma try_except_on_app_sent:
  "ws_sent (snd (try_except body (\<lambda>e. on_app (h e)) c)) = ws_sent (snd (body c))"
  by (cases "body c") (auto simp: try_except_def on_app_sent split: sum.splits)

lemma then_do_connected:
  assumes "\<And>s. ws_connected (snd (a s)) = ws_connected s"
    and "\<And>s. ws_connected (snd (b s)) = ws_connected s"
  shows "ws_connected (snd (then_do a b s)) = ws_connected s"
  using assms(1) [of s] assms(2) [of "snd (a s)"]
  by (cases "a s") (auto simp: then_do_def split: sum.splits)

lemma try_except_connected:
  assumes "\<And>s. ws_connected (snd (body s)) = ws_connected s"
    and "\<And>e s. ws_connected (snd (handler e s)) = ws_connected s"
  shows "ws_connected (snd (try_except body handler s)) = ws_connected s"
  using assms(1) [of s] assms(2) [of _ "snd (body s)"]
  by (cases "body s") (auto simp: try_except_def split: sum.splits)

lemma ws_send_connected: "ws_connected (snd (ws_send frame opc s)) = ws_connected s"
  by (simp add: ws_send_def)

lemma wsOnMessage_returns:
  "quiet (on_error f) \<Longrightarrow> fst (wsOnMessage rt cd f message c) = Inr ()"
  unfolding wsOnMessage_def
  by (rule try_except_returns) (simp add: on_app_result if_set_quiet)

lemma wsOnMessage_connected: "ws_connected (snd (wsOnMessage rt cd f message c)) = ws_connected c"
  unfolding wsOnMessage_def
  by (intro try_except_connected then_do_connected)
     (auto simp: on_app_connected throw_def ok_def ws_send_connected intro!: then_do_connected
       split: sum.splits)

lemma wsOnMessage_decoded:
  assumes "parse_PushFrame cd message = Inr package"
    and "gzip_decompress cd (frame_payload package) = Inr raw"
    and "parse_Response cd raw = Inr response"
    and "on_raw_message f = None"
    and "quiet (on_error f)"
    and "need_ack response \<longrightarrow> ws_connected c \<and> utf8_encode (internal_ext response) = Inr token"
  shows "app (snd (wsOnMessage rt cd f message c)) =
           snd (for_each (handle_message rt cd f) (messages_list response) (app c))"
proof -
  have "fst (for_each (handle_message rt cd f) (messages_list response) w) = Inr ()" for w
    using for_each_fold [of "handle_message rt cd f", OF handle_message_returns [OF assms(5)]]
    by simp
  then obtain w' where w': "for_each (handle_message rt cd f) (messages_list response) (app c) = (Inr (), w')"
    by (metis prod.collapse)
  show ?thesis
    using assms(1,2,3,4,6)
    by (auto simp: wsOnMessage_def try_except_def then_do_def on_app_def ws_send_def ok_def
        if_set_def w' split: prod.splits sum.splits)
qed

lemma quiet_on_error_callback: "quiet (Some (on_error_callback ev rid))"
  by (simp add: quiet_def on_error_callback_def)

subsection \<open>Facts about the samples\<close>

lemma sample_frame_decodes:
  "parse_PushFrame (sample_codec r) [7] = Inr \<lparr>log_id = 7, payload_type = ascii ''msg'', frame_payload = []\<rparr>"
  "gzip_decompress (sample_codec r)
     (frame_payload \<lparr>log_id = 7, payload_type = ascii ''msg'', frame_payload = []\<rparr>) = Inr []"
  "parse_Response (sample_codec r) [] = Inr r"
  by (simp_all add: sample_codec_def)

lemma sample_fetcher_on_error: "on_error sample_fetcher = Some (on_error_callback sample_env (ascii ''rec1''))"
  by (simp add: sample_fetcher_def)

lemma sample_fetcher_raw: "on_raw_message sample_fetcher = None"
  by (simp add: sample_fetcher_def)

lemma sample_fetcher_quiet: "quiet (on_error sample_fetcher)"
  by (simp add: sample_fetcher_on_error quiet_on_error_callback)

lemma sample_conn_session:
  "barrage_files (app sample_conn) (ascii ''rec1'') = Some (ascii ''out/b.txt'')"
  "writable sample_env (ascii ''out/b.txt'')"
  "ticks (app sample_conn) = 0"
  "transcript (app sample_conn) (ascii ''out/b.txt'') = []"
  by (simp_all add: sample_conn_def recording_world_def sample_env_def transcript_def getattr_def)

section \<open>Acknowledgement\<close>

text \<open>
  Claim C3. For a frame that decodes to a \<open>Response\<close>, on an open connection and with a
  raw-message hook that returns: when \<open>need_ack\<close> is set, exactly one frame is sent, of
  type \<open>ack\<close>, with the log id of the inbound frame and the UTF-8 bytes of
  \<open>internal_ext\<close> as payload, as a binary message; when it is not set, nothing is sent.
\<close>

theorem ack_exactly_once:
  assumes "parse_PushFrame cd message = Inr package"
    and "gzip_decompress cd (frame_payload package) = Inr raw"
    and "parse_Response cd raw = Inr response"
    and "fst (if_set (on_raw_message f) (ascii ''WebSocketRawMessage'', message) (app c)) = Inr ()"
    and "need_ack response \<longrightarrow> ws_connected c \<and> utf8_encode (internal_ext response) = Inr token"
  shows "ws_sent (snd (wsOnMessage rt cd f message c)) =
           ws_sent c @
             (if need_ack response
              then [(\<lparr>log_id = log_id package, payload_type = ascii ''ack'', frame_payload = token\<rparr>,
                     OPCODE_BINARY)]
              else [])"
proof -
  let ?hook = "if_set (on_raw_message f) (ascii ''WebSocketRawMessage'', message)"
  obtain w1 where w1: "?hook (app c) = (Inr (), w1)"
    using assms(4) by (cases "?hook (app c)") auto
  show ?thesis
    unfolding wsOnMessage_def try_except_on_app_sent
    using assms(1,2,3,5)
    by (auto simp: then_do_def on_app_def w1 ws_send_def ok_def split: prod.splits sum.splits)
qed

text \<open>
  The scenario of the specification: \<open>need_ack\<close>, \<open>internal_ext = "tok123"\<close>, log id 42;
  and a response that asks for no acknowledgement.
\<close>

theorem ack_exactly_once_witness:
  "ws_sent (snd (wsOnMessage sample_rt (sample_codec ack_request) sample_fetcher [42] sample_conn)) =
     [(\<lparr>log_id = 42, payload_type = ascii ''ack'',
        frame_payload = [116, 111, 107, 49, 50, 51]\<rparr>, OPCODE_BINARY)]
   \<and> ws_sent (snd (wsOnMessage sample_rt (sample_codec three_orders) sample_fetcher [42] sample_conn)) = []"
proof -
  have dec: "parse_PushFrame (sample_codec r) [42] =
        Inr \<lparr>log_id = 42, payload_type = ascii ''msg'', frame_payload = []\<rparr>"
      "gzip_decompress (sample_codec r)
         (frame_payload \<lparr>log_id = 42, payload_type = ascii ''msg'', frame_payload = []\<rparr>) = Inr []"
      "parse_Response (sample_codec r) [] = Inr r" for r
    by (simp_all add: sample_codec_def)
  have hook: "fst (if_set (on_raw_message sample_fetcher) (ascii ''WebSocketRawMessage'', [42])
                (app sample_conn)) = Inr ()"
    by (simp add: sample_fetcher_raw if_set_def ok_def)
  have tok: "need_ack ack_request \<longrightarrow> ws_connected sample_conn \<and>
      utf8_encode (internal_ext ack_request) = Inr [116, 111, 107, 49, 50, 51]"
    by (simp add: ack_request_def sample_conn_def ascii_def utf8_char_def)
  have no: "need_ack three_orders \<longrightarrow> ws_connected sample_conn \<and>
      utf8_encode (internal_ext three_orders) = Inr []"
    by (simp add: three_orders_def)
  show ?thesis
    using ack_exactly_once [OF dec hook tok, of sample_rt] ack_exactly_once [OF dec hook no, of sample_rt]
    by (simp add: ack_request_def three_orders_def sample_conn_def)
qed

section \<open>Live-shopping messages are not deduplicated\<close>

lemma ls_in_shopping: "ascii ''WebcastLiveShoppingMessage'' \<in> set shopping_message_types"
  by (simp add: shopping_message_types_def)

lemma ls_not_useless: "ascii ''WebcastLiveShoppingMessage'' \<notin> set useless_message_types"
  by (simp add: useless_message_types_def ascii_def)

lemma ls_not_core: "ascii ''WebcastLiveShoppingMessage'' \<notin> set core_message_types"
  by (simp add: core_message_types_def ascii_def)

lemma dispatch_live_shopping:
  "dispatch rt cd f (ascii ''WebcastLiveShoppingMessage'') p = parseLiveShoppingMsg rt cd f p"
  by (simp add: dispatch_def ascii_def)

lemma report_live_shopping:
  "on_error f = Some cb \<Longrightarrow>
   report_message rt f (ascii ''WebcastLiveShoppingMessage'') p =
     cb (ascii ''['' @ [28040, 24687, 31867, 22411] @ ascii ''] '' @ ascii ''WebcastLiveShoppingMessage''
           @ ascii '' - '' @ [25968, 25454, 38271, 24230] @ ascii '': '' @ str_nat (length p))"
  by (simp add: report_message_def ls_in_shopping ls_not_useless ls_not_core)

lemma handle_live_shopping:
  assumes "on_error f = Some (on_error_callback ev rid)" and "on_raw_message f = None"
    and "shopping_ok rt cd m"
  shows "handle_message rt cd f m w = (Inr (), fold (handle_error_message ev rid) (shopping_texts rt cd m) w)"
proof -
  have meth: "msg_method m = ascii ''WebcastLiveShoppingMessage''"
    using assms(3) by (simp add: shopping_ok_def)
  obtain message where dec: "parse_LiveShoppingMessage cd (msg_payload m) = Inr message"
    using assms(3) by (auto simp: shopping_ok_def split: sum.splits)
  show ?thesis
  proof (cases "common message")
    case None
    then show ?thesis
      using assms(1,2)
      by (simp add: handle_message_def meth dispatch_live_shopping report_live_shopping
          parseLiveShoppingMsg_def dec shopping_texts_def shopping_report_def type_line_def
          try_except_def then_do_def if_set_def call_def ok_def on_error_callback_def Let_def)
  next
    case (Some c)
    then show ?thesis
      using assms(1,2,3)
      by (auto simp: handle_message_def meth dispatch_live_shopping report_live_shopping
          parseLiveShoppingMsg_def dec shopping_texts_def shopping_report_def type_line_def
          try_except_def then_do_def if_set_def call_def ok_def on_error_callback_def Let_def
          shopping_ok_def
          split: sum.splits)
  qed
qed

lemma handle_error_message_effect:
  assumes "barrage_files w rid = Some path" and "writable ev path"
  shows "barrage_files (handle_error_message ev rid text w) = barrage_files w"
    and "ticks (handle_error_message ev rid text w) = Suc (ticks w)"
    and "files (handle_error_message ev rid text w) path =
           Some (getattr (files w path) [] @ [system_line ev (ticks w) text])"
  using assms
  by (simp_all add: handle_error_message_def write_to_file_def system_line_def Let_def)

lemma fold_handle_error_message:
  assumes "barrage_files w rid = Some path" and "writable ev path"
  shows "files (fold (handle_error_message ev rid) texts w) path =
           (if texts = [] then files w path
            else Some (getattr (files w path) [] @ system_lines ev (ticks w) texts))"
  using assms(1)
proof (induction texts arbitrary: w)
  case Nil
  show ?case by simp
next
  case (Cons t ts)
  note eff = handle_error_message_effect [OF Cons.prems assms(2), of t]
  have bf: "barrage_files (handle_error_message ev rid t w) rid = Some path"
    using eff(1) Cons.prems by simp
  show ?case
    using Cons.IH [OF bf] eff(2,3) by (simp add: getattr_def)
qed

lemma transcript_fold_handle_error_message:
  assumes "barrage_files w rid = Some path" and "writable ev path"
  shows "transcript (fold (handle_error_message ev rid) texts w) path =
           transcript w path @ system_lines ev (ticks w) texts"
  using fold_handle_error_message [OF assms, of texts]
  by (simp add: transcript_def getattr_def)

lemma fold_concat_map: "fold g (concat (map h xs)) s = fold (\<lambda>x. fold g (h x)) xs s"
  by (induction xs arbitrary: s) simp_all

lemma for_each_live_shopping:
  assumes "on_error f = Some (on_error_callback ev rid)" and "on_raw_message f = None"
    and "\<forall>m \<in> set ms. shopping_ok rt cd m"
  shows "for_each (handle_message rt cd f) ms w =
           (Inr (), fold (handle_error_message ev rid) (concat (map (shopping_texts rt cd) ms)) w)"
proof -
  have q: "quiet (on_error f)" using assms(1) quiet_on_error_callback by simp
  have "for_each (handle_message rt cd f) ms w =
          (Inr (), fold (\<lambda>m s. snd (handle_message rt cd f m s)) ms w)"
    by (rule for_each_fold) (rule handle_message_returns [OF q])
  moreover have "fold (\<lambda>m s. snd (handle_message rt cd f m s)) ms w =
      fold (\<lambda>m. fold (handle_error_message ev rid) (shopping_texts rt cd m)) ms w"
    using assms(3)
  proof (induction ms arbitrary: w)
    case Nil
    show ?case by simp
  next
    case (Cons m ms)
    then show ?case
      using handle_live_shopping [OF assms(1,2), of rt cd m] by simp
  qed
  ultimately show ?thesis by (simp add: fold_concat_map)
qed

lemma one_shopping_line_each:
  "\<forall>m \<in> set ms. shopping_ok rt cd m \<Longrightarrow>
     length (filter is_shopping_line (concat (map (shopping_texts rt cd) ms))) = length ms"
proof (induction ms)
  case Nil
  show ?case by simp
next
  case (Cons m ms)
  then obtain message where dec: "parse_LiveShoppingMessage cd (msg_payload m) = Inr message"
    by (auto simp: shopping_ok_def split: sum.splits)
  have "length (filter is_shopping_line (shopping_texts rt cd m)) = 1"
    by (simp add: shopping_texts_def dec type_line_def shopping_report_def shopping_line_def
        order_line_def is_shopping_line_def ascii_def Let_def split: option.splits)
  then show ?case using Cons by simp
qed

lemma three_orders_ok: "\<forall>m \<in> set (messages_list three_orders). shopping_ok sample_rt (sample_codec three_orders) m"
  by (simp add: three_orders_def shopping_ok_def sample_codec_def sample_shopping_def sample_rt_def
      getattr_def Let_def)

lemma three_orders_texts:
  "concat (map (shopping_texts sample_rt (sample_codec three_orders)) (messages_list three_orders)) =
     [ascii ''['' @ [28040, 24687, 31867, 22411] @ ascii ''] WebcastLiveShoppingMessage - ''
        @ [25968, 25454, 38271, 24230] @ ascii '': 3'',
      ascii ''['' @ [30452, 25773, 36141, 29289] @ ascii ''] 22:13:20 - '' @ [19979, 21333, 25805, 20316]
        @ ascii '', '' @ [21830, 21697] @ ascii ''ID:99'',
      ascii ''['' @ [128722] @ ascii '' '' @ [19979, 21333] @ ascii ''] 22:13:20 - ''
        @ [21830, 21697] @ ascii ''ID:99'',
      ascii ''['' @ [28040, 24687, 31867, 22411] @ ascii ''] WebcastLiveShoppingMessage - ''
        @ [25968, 25454, 38271, 24230] @ ascii '': 3'',
      ascii ''['' @ [30452, 25773, 36141, 29289] @ ascii ''] 22:13:20 - '' @ [19979, 21333, 25805, 20316]
        @ ascii '', '' @ [21830, 21697] @ ascii ''ID:99'',
      ascii ''['' @ [128722] @ ascii '' '' @ [19979, 21333] @ ascii ''] 22:13:20 - ''
        @ [21830, 21697] @ ascii ''ID:99'',
      ascii ''['' @ [28040, 24687, 31867, 22411] @ ascii ''] WebcastLiveShoppingMessage - ''
        @ [25968, 25454, 38271, 24230] @ ascii '': 3'',
      ascii ''['' @ [30452, 25773, 36141, 29289] @ ascii ''] 22:13:20 - '' @ [19979, 21333, 25805, 20316]
        @ ascii '', '' @ [21830, 21697] @ ascii ''ID:99'',
      ascii ''['' @ [128722] @ ascii '' '' @ [19979, 21333] @ ascii ''] 22:13:20 - ''
        @ [21830, 21697] @ ascii ''ID:99'']"
  by (simp add: three_orders_def shopping_texts_def shopping_report_def type_line_def shopping_line_def
      order_line_def type_map_def sample_codec_def sample_shopping_def sample_rt_def two_digits_def
      getattr_def str_int_def str_nat.simps ascii_def Let_def)

text \<open>
  Claim C1, as the code has it. The dispatcher calls the live-shopping parser for every
  message and never consults the duplicate check (lines 171-173), so a \<open>Response\<close> of
  live-shopping messages adds to the transcript, for each message in order, its type line,
  its action line and, for an order, its order line: one action line for each message,
  whatever the promotion id and the event time.
\<close>

theorem live_shopping_one_line_each:
  assumes "parse_PushFrame cd message = Inr package"
    and "gzip_decompress cd (frame_payload package) = Inr raw"
    and "parse_Response cd raw = Inr response"
    and "need_ack response \<longrightarrow> ws_connected c \<and> utf8_encode (internal_ext response) = Inr token"
    and "on_error f = Some (on_error_callback ev rid)" and "on_raw_message f = None"
    and "barrage_files (app c) rid = Some path" and "writable ev path"
    and "\<forall>m \<in> set (messages_list response). shopping_ok rt cd m"
  shows "transcript (app (snd (wsOnMessage rt cd f message c))) path =
           transcript (app c) path @
             system_lines ev (ticks (app c))
               (concat (map (shopping_texts rt cd) (messages_list response)))
         \<and> length (filter is_shopping_line
               (concat (map (shopping_texts rt cd) (messages_list response))))
             = length (messages_list response)"
proof -
  have q: "quiet (on_error f)" using assms(5) quiet_on_error_callback by simp
  show ?thesis
    using wsOnMessage_decoded [OF assms(1,2,3,6) q assms(4), of rt]
      for_each_live_shopping [OF assms(5,6,9), of "app c"]
      transcript_fold_handle_error_message [OF assms(7,8)]
      one_shopping_line_each [OF assms(9)]
    by simp
qed

theorem live_shopping_one_line_each_witness:
  "transcript (app (snd (wsOnMessage sample_rt (sample_codec three_orders) sample_fetcher [7] sample_conn)))
       (ascii ''out/b.txt'') =
     transcript (app sample_conn) (ascii ''out/b.txt'') @
       system_lines sample_env (ticks (app sample_conn))
         (concat (map (shopping_texts sample_rt (sample_codec three_orders)) (messages_list three_orders)))
   \<and> length (filter is_shopping_line
         (concat (map (shopping_texts sample_rt (sample_codec three_orders)) (messages_list three_orders))))
       = length (messages_list three_orders)
   \<and> length (messages_list three_orders) = 3"
proof -
  have ack: "need_ack three_orders \<longrightarrow> ws_connected sample_conn \<and> utf8_encode (internal_ext three_orders) = Inr []"
    by (simp add: three_orders_def)
  show ?thesis
    using live_shopping_one_line_each [OF sample_frame_decodes ack sample_fetcher_on_error
        sample_fetcher_raw sample_conn_session(1,2) three_orders_ok]
    by (simp add: three_orders_def)
qed

text \<open>
  Three orders for promotion 99 within the same second: nine lines are appended, three of
  them action lines and three of them order lines.
\<close>

theorem three_orders_counterexample:
  "transcript (app (snd (wsOnMessage sample_rt (sample_codec three_orders) sample_fetcher [7] sample_conn)))
       (ascii ''out/b.txt'') =
     [ascii ''[12:00:00] ['' @ [31995, 32479] @ ascii ''] ['' @ [28040, 24687, 31867, 22411]
        @ ascii ''] WebcastLiveShoppingMessage - '' @ [25968, 25454, 38271, 24230] @ ascii '': 3'' @ [10],
      ascii ''[12:00:00] ['' @ [31995, 32479] @ ascii ''] ['' @ [30452, 25773, 36141, 29289]
        @ ascii ''] 22:13:20 - '' @ [19979, 21333, 25805, 20316] @ ascii '', '' @ [21830, 21697]
        @ ascii ''ID:99'' @ [10],
      ascii ''[12:00:00] ['' @ [31995, 32479] @ ascii ''] ['' @ [128722] @ ascii '' '' @ [19979, 21333]
        @ ascii ''] 22:13:20 - '' @ [21830, 21697] @ ascii ''ID:99'' @ [10],
      ascii ''[12:00:00] ['' @ [31995, 32479] @ ascii ''] ['' @ [28040, 24687, 31867, 22411]
        @ ascii ''] WebcastLiveShoppingMessage - '' @ [25968, 25454, 38271, 24230] @ ascii '': 3'' @ [10],
      ascii ''[12:00:00] ['' @ [31995, 32479] @ ascii ''] ['' @ [30452, 25773, 36141, 29289]
        @ ascii ''] 22:13:20 - '' @ [19979, 21333, 25805, 20316] @ ascii '', '' @ [21830, 21697]
        @ ascii ''ID:99'' @ [10],
      ascii ''[12:00:00] ['' @ [31995, 32479] @ ascii ''] ['' @ [128722] @ ascii '' '' @ [19979, 21333]
        @ ascii ''] 22:13:20 - '' @ [21830, 21697] @ ascii ''ID:99'' @ [10],
      ascii ''[12:00:00] ['' @ [31995, 32479] @ ascii ''] ['' @ [28040, 24687, 31867, 22411]
        @ ascii ''] WebcastLiveShoppingMessage - '' @ [25968, 25454, 38271, 24230] @ ascii '': 3'' @ [10],
      ascii ''[12:00:00] ['' @ [31995, 32479] @ ascii ''] ['' @ [30452, 25773, 36141, 29289]
        @ ascii ''] 22:13:20 - '' @ [19979, 21333, 25805, 20316] @ ascii '', '' @ [21830, 21697]
        @ ascii ''ID:99'' @ [10],
      ascii ''[12:00:00] ['' @ [31995, 32479] @ ascii ''] ['' @ [128722] @ ascii '' '' @ [19979, 21333]
        @ ascii ''] 22:13:20 - '' @ [21830, 21697] @ ascii ''ID:99'' @ [10]]
   \<and> length (filter (str_contains (ascii ''['' @ [30452, 25773, 36141, 29289] @ ascii '']''))
        (transcript (app (snd (wsOnMessage sample_rt (sample_codec three_orders) sample_fetcher [7]
           sample_conn))) (ascii ''out/b.txt''))) = 3
   \<and> length (filter (str_contains (ascii ''['' @ [128722] @ ascii '' '' @ [19979, 21333] @ ascii '']''))
        (transcript (app (snd (wsOnMessage sample_rt (sample_codec three_orders) sample_fetcher [7]
           sample_conn))) (ascii ''out/b.txt''))) = 3"
proof -
  have ack: "need_ack three_orders \<longrightarrow> ws_connected sample_conn \<and> utf8_encode (internal_ext three_orders) = Inr []"
    by (simp add: three_orders_def)
  have q: "quiet (on_error sample_fetcher)"
    by (simp add: sample_fetcher_on_error quiet_on_error_callback)
  have run: "transcript (app (snd (wsOnMessage sample_rt (sample_codec three_orders) sample_fetcher [7] sample_conn)))
       (ascii ''out/b.txt'') =
     system_lines sample_env 0
         (concat (map (shopping_texts sample_rt (sample_codec three_orders)) (messages_list three_orders)))"
    using wsOnMessage_decoded [OF sample_frame_decodes sample_fetcher_raw q ack, of sample_rt]
      for_each_live_shopping [OF sample_fetcher_on_error sample_fetcher_raw three_orders_ok, of "app sample_conn"]
      transcript_fold_handle_error_message [OF sample_conn_session(1,2)]
    by (simp add: sample_conn_session)
  show ?thesis
    unfolding run three_orders_texts
    by (simp add: system_line_def sample_env_def ascii_def)
qed

section \<open>A failing message does not stop the others\<close>

lemma report_message_returns:
  "quiet (on_error f) \<Longrightarrow> fst (report_message rt f method p w) = Inr ()"
  by (cases "on_error f") (auto simp: report_message_def quiet_def ok_def split: option.splits)

lemma dispatch_returns:
  "quiet (on_error f) \<Longrightarrow> fst (dispatch rt cd f method p w) = Inr ()"
  by (simp add: dispatch_def parseChatMsg_def parseGiftMsg_def parseMemberMsg_def parseLikeMsg_def
      parseSocialMsg_def parseEmojiChatMsg_def parseRoomUserSeqMsg_def parseRoomStatsMsg_def
      parseControlMsg_def parse_and_handle_def parseProductChangeMsg_def parseLiveShoppingMsg_def
      parseLiveEcomGeneralMsg_def try_except_quiet ok_def)

lemma then_do_returns:
  assumes "\<And>s. fst (a s) = Inr ()" and "\<And>s. fst (b s) = Inr ()"
  shows "fst (then_do a b s) = Inr ()"
  using assms(1) [of s] assms(2) [of "snd (a s)"]
  by (cases "a s") (auto simp: then_do_def split: sum.splits)

lemma handle_message_plain:
  assumes "quiet (on_error f)" and "on_raw_message f = None"
  shows "handle_message rt cd f m w =
           then_do (report_message rt f (msg_method m) (msg_payload m))
             (dispatch rt cd f (msg_method m) (msg_payload m)) w"
proof -
  have "fst (then_do (report_message rt f (msg_method m) (msg_payload m))
             (dispatch rt cd f (msg_method m) (msg_payload m)) w) = Inr ()"
    by (intro then_do_returns report_message_returns dispatch_returns assms(1))
  then show ?thesis
    by (simp add: handle_message_def assms(2) if_set_def then_do_ok_left try_except_no_raise)
qed

lemma parse_and_handle_result:
  "parse_and_handle parse (Some h) report label p w =
     (case parse p of
        Inl e \<Rightarrow> if_set report (label @ e) w
      | Inr obj \<Rightarrow> (case h obj w of
                     (Inl e, w') \<Rightarrow> if_set report (label @ e) w'
                   | (Inr u, w') \<Rightarrow> (Inr (), w')))"
  by (simp add: parse_and_handle_def try_except_def throw_def if_set_def split: sum.splits prod.splits)

lemma typed_parsers_report:
  "(name, decode, callback, label) \<in> set (typed_parsers cd f) \<Longrightarrow> report_message rt f name p = ok"
  unfolding typed_parsers_def report_message_def core_message_types_def useless_message_types_def
  by (cases "on_error f") auto

lemma typed_parsers_dispatch:
  assumes "(name, decode, Some h, label) \<in> set (typed_parsers cd f)"
  shows "dispatch rt cd f name p = parse_and_handle decode (Some h) (on_error f) label p"
proof -
  from assms consider
      "name = ascii ''WebcastChatMessage''" "decode = parse_ChatMessage cd" "on_chat f = Some h"
        "label = ascii ''['' @ [24377, 24149, 35299, 26512, 38169, 35823] @ ascii ''] ''"
    | "name = ascii ''WebcastGiftMessage''" "decode = parse_GiftMessage cd" "on_gift f = Some h"
        "label = ascii ''['' @ [31036, 29289, 35299, 26512, 38169, 35823] @ ascii ''] ''"
    | "name = ascii ''WebcastMemberMessage''" "decode = parse_MemberMessage cd" "on_member f = Some h"
        "label = ascii ''['' @ [35266, 20247, 36827, 20837, 35299, 26512, 38169, 35823] @ ascii ''] ''"
    | "name = ascii ''WebcastLikeMessage''" "decode = parse_LikeMessage cd" "on_like f = Some h"
        "label = ascii ''['' @ [28857, 36190, 35299, 26512, 38169, 35823] @ ascii ''] ''"
    | "name = ascii ''WebcastSocialMessage''" "decode = parse_SocialMessage cd" "on_social f = Some h"
        "label = ascii ''['' @ [20851, 27880, 35299, 26512, 38169, 35823] @ ascii ''] ''"
    | "name = ascii ''WebcastEmojiChatMessage''" "decode = parse_EmojiChatMessage cd"
        "on_emoji_chat f = Some h"
        "label = ascii ''['' @ [34920, 24773, 24377, 24149, 35299, 26512, 38169, 35823] @ ascii ''] ''"
    | "name = ascii ''WebcastRoomUserSeqMessage''" "decode = parse_RoomUserSeqMessage cd"
        "on_room_user_seq f = Some h"
        "label = ascii ''['' @ [25151, 38388, 29992, 25143, 24207, 21015, 35299, 26512, 38169, 35823]
           @ ascii ''] ''"
    | "name = ascii ''WebcastRoomStatsMessage''" "decode = parse_RoomStatsMessage cd"
        "on_room_stats f = Some h"
        "label = ascii ''['' @ [25151, 38388, 32479, 35745, 35299, 26512, 38169, 35823] @ ascii ''] ''"
    | "name = ascii ''WebcastControlMessage''" "decode = parse_ControlMessage cd" "on_control f = Some h"
        "label = ascii ''['' @ [25511, 21046, 28040, 24687, 35299, 26512, 38169, 35823] @ ascii ''] ''"
    unfolding typed_parsers_def by auto
  then show ?thesis
  proof cases
    case 1 then show ?thesis by (simp add: dispatch_def parseChatMsg_def)
  next
    case 2 then show ?thesis by (simp add: dispatch_def parseGiftMsg_def ascii_def)
  next
    case 3 then show ?thesis by (simp add: dispatch_def parseMemberMsg_def ascii_def)
  next
    case 4 then show ?thesis by (simp add: dispatch_def parseLikeMsg_def ascii_def)
  next
    case 5 then show ?thesis by (simp add: dispatch_def parseSocialMsg_def ascii_def)
  next
    case 6 then show ?thesis by (simp add: dispatch_def parseEmojiChatMsg_def ascii_def)
  next
    case 7 then show ?thesis by (simp add: dispatch_def parseRoomUserSeqMsg_def ascii_def)
  next
    case 8 then show ?thesis by (simp add: dispatch_def parseRoomStatsMsg_def ascii_def)
  next
    case 9 then show ?thesis by (simp add: dispatch_def parseControlMsg_def ascii_def)
  qed
qed

lemma handle_message_typed:
  assumes "quiet (on_error f)" and "on_raw_message f = None"
    and "(name, decode, Some h, label) \<in> set (typed_parsers cd f)" and "msg_method m = name"
  shows "handle_message rt cd f m w =
           (case decode (msg_payload m) of
              Inl e \<Rightarrow> if_set (on_error f) (label @ e) w
            | Inr obj \<Rightarrow> (case h obj w of
                           (Inl e, w') \<Rightarrow> if_set (on_error f) (label @ e) w'
                         | (Inr u, w') \<Rightarrow> (Inr (), w')))"
  unfolding handle_message_plain [OF assms(1,2)] assms(4)
    typed_parsers_report [OF assms(3)] typed_parsers_dispatch [OF assms(3)] then_do_ok_left
  by (rule parse_and_handle_result)

lemma report_message_commerce:
  "method \<in> set shopping_message_types \<Longrightarrow>
     report_message rt f method p =
       if_set (on_error f)
         (ascii ''['' @ [28040, 24687, 31867, 22411] @ ascii ''] '' @ method @ ascii '' - ''
            @ [25968, 25454, 38271, 24230] @ ascii '': '' @ str_nat (length p))"
  unfolding report_message_def shopping_message_types_def core_message_types_def
    useless_message_types_def if_set_def
  by (cases "on_error f") (auto simp: ascii_def)

lemma for_each_two: "for_each body [x, y] = then_do (body x) (body y)"
  by (simp add: then_do_ok_right)

lemma handle_product_change_decode_error:
  assumes "quiet (on_error f)" and "on_raw_message f = None"
    and "msg_method m = ascii ''WebcastProductChangeMessage''"
    and "parse_ProductChangeMessage cd (msg_payload m) = Inl e"
  shows "handle_message rt cd f m w =
           for_each (if_set (on_error f)) [type_line m, product_change_error @ e] w"
proof -
  have d: "dispatch rt cd f (msg_method m) (msg_payload m) = if_set (on_error f) (product_change_error @ e)"
    unfolding assms(3)
    by (rule ext)
       (simp add: dispatch_def parseProductChangeMsg_def assms(4) try_except_def throw_def
         product_change_error_def ascii_def)
  have r: "report_message rt f (msg_method m) (msg_payload m) = if_set (on_error f) (type_line m)"
    using report_message_commerce [of "msg_method m" rt f "msg_payload m"] assms(3)
    by (simp add: shopping_message_types_def type_line_def)
  show ?thesis
    unfolding handle_message_plain [OF assms(1,2)] d r for_each_two ..
qed

lemma handle_live_shopping_decode_error:
  assumes "quiet (on_error f)" and "on_raw_message f = None"
    and "msg_method m = ascii ''WebcastLiveShoppingMessage''"
    and "parse_LiveShoppingMessage cd (msg_payload m) = Inl e"
  shows "handle_message rt cd f m w =
           for_each (if_set (on_error f)) [type_line m, live_shopping_error @ e] w"
proof -
  have d: "dispatch rt cd f (msg_method m) (msg_payload m) = if_set (on_error f) (live_shopping_error @ e)"
    unfolding assms(3)
    by (rule ext)
       (simp add: dispatch_def parseLiveShoppingMsg_def assms(4) try_except_def throw_def
         live_shopping_error_def ascii_def)
  have r: "report_message rt f (msg_method m) (msg_payload m) = if_set (on_error f) (type_line m)"
    using report_message_commerce [of "msg_method m" rt f "msg_payload m"] assms(3)
    by (simp add: shopping_message_types_def type_line_def)
  show ?thesis
    unfolding handle_message_plain [OF assms(1,2)] d r for_each_two ..
qed

lemma handle_live_shopping_time_error:
  assumes "quiet (on_error f)" and "on_raw_message f = None"
    and "msg_method m = ascii ''WebcastLiveShoppingMessage''"
    and "parse_LiveShoppingMessage cd (msg_payload m) = Inr message"
    and "common message = Some cm" and "create_time cm = Some ct" and "0 < ct"
    and "strftime_HMS_local rt ct = Inl e"
  shows "handle_message rt cd f m w =
           for_each (if_set (on_error f)) [type_line m, live_shopping_error @ e] w"
proof -
  have d: "dispatch rt cd f (msg_method m) (msg_payload m) = if_set (on_error f) (live_shopping_error @ e)"
    unfolding assms(3)
    by (rule ext)
       (simp add: dispatch_def parseLiveShoppingMsg_def assms(4,5,6,7,8) try_except_def throw_def
         then_do_def getattr_def live_shopping_error_def ascii_def Let_def)
  have r: "report_message rt f (msg_method m) (msg_payload m) = if_set (on_error f) (type_line m)"
    using report_message_commerce [of "msg_method m" rt f "msg_payload m"] assms(3)
    by (simp add: shopping_message_types_def type_line_def)
  show ?thesis
    unfolding handle_message_plain [OF assms(1,2)] d r for_each_two ..
qed

lemma parseLiveEcomGeneralMsg_report:
  assumes "quiet (on_error f)"
  shows "parseLiveEcomGeneralMsg f p = for_each (if_set (on_error f)) (ecom_report p)"
proof (cases "on_error f")
  case None
  then show ?thesis
    by (auto simp: parseLiveEcomGeneralMsg_def ecom_report_def Let_def try_except_def ok_def
        if_set_def then_do_def fun_eq_iff)
next
  case (Some cb)
  have cb: "fst (cb x s) = Inr ()" for x s
    using assms Some by (simp add: quiet_def)
  have two: "try_except (then_do (cb x) (cb y)) h = then_do (cb x) (cb y)" for x y h
    by (rule ext) (rule try_except_no_raise, rule then_do_returns, rule cb, rule cb)
  show ?thesis
    by (simp add: parseLiveEcomGeneralMsg_def ecom_report_def Let_def Some two if_set_def
        then_do_ok_right)
qed

lemma handle_ecom_general:
  assumes "quiet (on_error f)" and "on_raw_message f = None"
    and "msg_method m = ascii ''WebcastLiveEcomGeneralMessage''"
  shows "handle_message rt cd f m w =
           for_each (if_set (on_error f)) (type_line m # ecom_report (msg_payload m)) w"
proof -
  have d: "dispatch rt cd f (msg_method m) (msg_payload m) =
      for_each (if_set (on_error f)) (ecom_report (msg_payload m))"
    unfolding assms(3) parseLiveEcomGeneralMsg_report [OF assms(1), symmetric]
    by (simp add: dispatch_def ascii_def)
  have r: "report_message rt f (msg_method m) (msg_payload m) = if_set (on_error f) (type_line m)"
    using report_message_commerce [of "msg_method m" rt f "msg_payload m"] assms(3)
    by (simp add: shopping_message_types_def type_line_def)
  show ?thesis
    unfolding handle_message_plain [OF assms(1,2)] d r by simp
qed

lemma wsOnMessage_loop:
  assumes "parse_PushFrame cd message = Inr package"
    and "gzip_decompress cd (frame_payload package) = Inr raw"
    and "parse_Response cd raw = Inr response"
    and "if_set (on_raw_message f) (ascii ''WebSocketRawMessage'', message) (app c) = (Inr (), w0)"
    and "quiet (on_error f)"
    and "need_ack response \<longrightarrow> ws_connected c \<and> utf8_encode (internal_ext response) = Inr token"
  shows "app (snd (wsOnMessage rt cd f message c)) =
           fold (\<lambda>m s. snd (handle_message rt cd f m s)) (messages_list response) w0"
proof -
  have loop: "for_each (handle_message rt cd f) (messages_list response) w =
      (Inr (), fold (\<lambda>m s. snd (handle_message rt cd f m s)) (messages_list response) w)" for w
    by (rule for_each_fold) (rule handle_message_returns [OF assms(5)])
  show ?thesis
    using assms(1,2,3,4,6)
    by (auto simp: wsOnMessage_def try_except_def then_do_def on_app_def ws_send_def ok_def
        loop split: prod.splits sum.splits)
qed

lemma handle_message_hook_error:
  "on_raw_message f = Some h \<Longrightarrow> h (msg_method m, msg_payload m) w = (Inl e, w') \<Longrightarrow>
     handle_message rt cd f m w =
       if_set (on_error f)
         (ascii ''['' @ [28040, 24687, 35299, 26512, 24322, 24120] @ ascii ''] '' @ msg_method m
            @ ascii '': '' @ e) w'"
  by (simp add: handle_message_def try_except_def then_do_def if_set_def)

text \<open>
  Claim C5, as the code has it, for a diagnostic callback that does not raise.
  \<open>_wsOnMessage\<close> returns with the connection as it was, and for a frame that decodes the
  state it leaves is the one reached by handling every message of the \<open>Response\<close> in
  order, each on the state the one before left; handling one message always returns. What
  handling a message does when something fails is fixed parser by parser. For each of the
  nine typed parsers with its callback set, an exception of the decoder or of the callback
  is reported under that parser's own label, without the method name, and nothing else
  happens. A product-change or live-shopping message that cannot be decoded, and a
  live-shopping message whose time stamp cannot be formatted, is reported under the label
  of its parser, after the line with its type and length. The general e-commerce parser
  decodes nothing that can fail and always reports its two lines. The method name is in
  the report only of an exception that escapes the parsers, which is one of the
  raw-message hook.
\<close>

theorem message_failure_is_contained:
  assumes "quiet (on_error f)"
  shows "fst (wsOnMessage rt cd f message c) = Inr ()
       \<and> ws_connected (snd (wsOnMessage rt cd f message c)) = ws_connected c
       \<and> (parse_PushFrame cd message = Inr package
            \<and> gzip_decompress cd (frame_payload package) = Inr raw
            \<and> parse_Response cd raw = Inr response
            \<and> if_set (on_raw_message f) (ascii ''WebSocketRawMessage'', message) (app c) = (Inr (), w0)
            \<and> (need_ack response \<longrightarrow>
                 ws_connected c \<and> utf8_encode (internal_ext response) = Inr token) \<longrightarrow>
          app (snd (wsOnMessage rt cd f message c)) =
            fold (\<lambda>m s. snd (handle_message rt cd f m s)) (messages_list response) w0)
       \<and> fst (handle_message rt cd f m w) = Inr ()
       \<and> ((name, decode, Some h, label) \<in> set (typed_parsers cd f)
            \<and> msg_method m = name \<and> on_raw_message f = None \<longrightarrow>
          handle_message rt cd f m w =
            (case decode (msg_payload m) of
               Inl e \<Rightarrow> if_set (on_error f) (label @ e) w
             | Inr obj \<Rightarrow> (case h obj w of
                            (Inl e, w') \<Rightarrow> if_set (on_error f) (label @ e) w'
                          | (Inr u, w') \<Rightarrow> (Inr (), w'))))
       \<and> (msg_method m = ascii ''WebcastProductChangeMessage'' \<and> on_raw_message f = None
            \<and> parse_ProductChangeMessage cd (msg_payload m) = Inl e \<longrightarrow>
          handle_message rt cd f m w =
            for_each (if_set (on_error f)) [type_line m, product_change_error @ e] w)
       \<and> (msg_method m = ascii ''WebcastLiveShoppingMessage'' \<and> on_raw_message f = None
            \<and> parse_LiveShoppingMessage cd (msg_payload m) = Inl e \<longrightarrow>
          handle_message rt cd f m w =
            for_each (if_set (on_error f)) [type_line m, live_shopping_error @ e] w)
       \<and> (msg_method m = ascii ''WebcastLiveShoppingMessage'' \<and> on_raw_message f = None
            \<and> parse_LiveShoppingMessage cd (msg_payload m) = Inr shopping
            \<and> common shopping = Some cm \<and> create_time cm = Some ct \<and> 0 < ct
            \<and> strftime_HMS_local rt ct = Inl e \<longrightarrow>
          handle_message rt cd f m w =
            for_each (if_set (on_error f)) [type_line m, live_shopping_error @ e] w)
       \<and> (msg_method m = ascii ''WebcastLiveEcomGeneralMessage'' \<and> on_raw_message f = None \<longrightarrow>
          handle_message rt cd f m w =
            for_each (if_set (on_error f)) (type_line m # ecom_report (msg_payload m)) w)
       \<and> (on_raw_message f = Some hook \<and> hook (msg_method m, msg_payload m) w = (Inl e, w') \<longrightarrow>
          handle_message rt cd f m w =
            if_set (on_error f)
              (ascii ''['' @ [28040, 24687, 35299, 26512, 24322, 24120] @ ascii ''] '' @ msg_method m
                 @ ascii '': '' @ e) w')"
proof (intro conjI impI)
  show "fst (wsOnMessage rt cd f message c) = Inr ()"
    by (rule wsOnMessage_returns [OF assms])
  show "ws_connected (snd (wsOnMessage rt cd f message c)) = ws_connected c"
    by (rule wsOnMessage_connected)
  show "app (snd (wsOnMessage rt cd f message c)) =
          fold (\<lambda>m s. snd (handle_message rt cd f m s)) (messages_list response) w0"
    if "parse_PushFrame cd message = Inr package
          \<and> gzip_decompress cd (frame_payload package) = Inr raw
          \<and> parse_Response cd raw = Inr response
          \<and> if_set (on_raw_message f) (ascii ''WebSocketRawMessage'', message) (app c) = (Inr (), w0)
          \<and> (need_ack response \<longrightarrow> ws_connected c \<and> utf8_encode (internal_ext response) = Inr token)"
    by (rule wsOnMessage_loop [where package = package and raw = raw and token = token])
       (use that assms in simp_all)
  show "fst (handle_message rt cd f m w) = Inr ()"
    by (rule handle_message_returns [OF assms])
  show "handle_message rt cd f m w =
            (case decode (msg_payload m) of
               Inl e \<Rightarrow> if_set (on_error f) (label @ e) w
             | Inr obj \<Rightarrow> (case h obj w of
                            (Inl e, w') \<Rightarrow> if_set (on_error f) (label @ e) w'
                          | (Inr u, w') \<Rightarrow> (Inr (), w')))"
    if "(name, decode, Some h, label) \<in> set (typed_parsers cd f)
          \<and> msg_method m = name \<and> on_raw_message f = None"
    by (rule handle_message_typed [where name = name]) (use that assms in simp_all)
  show "handle_message rt cd f m w =
          for_each (if_set (on_error f)) [type_line m, product_change_error @ e] w"
    if "msg_method m = ascii ''WebcastProductChangeMessage'' \<and> on_raw_message f = None
          \<and> parse_ProductChangeMessage cd (msg_payload m) = Inl e"
    by (rule handle_product_change_decode_error) (use that assms in simp_all)
  show "handle_message rt cd f m w =
          for_each (if_set (on_error f)) [type_line m, live_shopping_error @ e] w"
    if "msg_method m = ascii ''WebcastLiveShoppingMessage'' \<and> on_raw_message f = None
          \<and> parse_LiveShoppingMessage cd (msg_payload m) = Inl e"
    by (rule handle_live_shopping_decode_error) (use that assms in simp_all)
  show "handle_message rt cd f m w =
          for_each (if_set (on_error f)) [type_line m, live_shopping_error @ e] w"
    if "msg_method m = ascii ''WebcastLiveShoppingMessage'' \<and> on_raw_message f = None
          \<and> parse_LiveShoppingMessage cd (msg_payload m) = Inr shopping
          \<and> common shopping = Some cm \<and> create_time cm = Some ct \<and> 0 < ct
          \<and> strftime_HMS_local rt ct = Inl e"
    by (rule handle_live_shopping_time_error [where message = shopping and cm = cm and ct = ct])
       (use that assms in simp_all)
  show "handle_message rt cd f m w =
          for_each (if_set (on_error f)) (type_line m # ecom_report (msg_payload m)) w"
    if "msg_method m = ascii ''WebcastLiveEcomGeneralMessage'' \<and> on_raw_message f = None"
    by (rule handle_ecom_general) (use that assms in simp_all)
  show "handle_message rt cd f m w =
          if_set (on_error f)
            (ascii ''['' @ [28040, 24687, 35299, 26512, 24322, 24120] @ ascii ''] '' @ msg_method m
               @ ascii '': '' @ e) w'"
    if "on_raw_message f = Some hook \<and> hook (msg_method m, msg_payload m) w = (Inl e, w')"
    using that by (simp add: handle_message_hook_error)
qed

lemma handle_bad_gift:
  "handle_message sample_rt (sample_codec r) sample_fetcher
       \<lparr>msg_method = ascii ''WebcastGiftMessage'', msg_payload = []\<rparr> w =
     (Inr (), handle_error_message sample_env (ascii ''rec1'')
        (ascii ''['' @ [31036, 29289, 35299, 26512, 38169, 35823] @ ascii ''] truncated'') w)"
  by (simp add: handle_message_def report_message_def dispatch_def parseGiftMsg_def
      parse_and_handle_def core_message_types_def sample_fetcher_def sample_codec_def
      sample_object_def on_error_callback_def try_except_def then_do_def if_set_def ok_def throw_def
      ascii_def)

lemma handle_sample_order:
  "handle_message sample_rt (sample_codec r) sample_fetcher
       \<lparr>msg_method = ascii ''WebcastLiveShoppingMessage'', msg_payload = [2, 99, 100]\<rparr> w =
     (Inr (), fold (handle_error_message sample_env (ascii ''rec1''))
        [ascii ''['' @ [28040, 24687, 31867, 22411] @ ascii ''] WebcastLiveShoppingMessage - ''
           @ [25968, 25454, 38271, 24230] @ ascii '': 3'',
         ascii ''['' @ [30452, 25773, 36141, 29289] @ ascii ''] 22:13:20 - '' @ [19979, 21333, 25805, 20316]
           @ ascii '', '' @ [21830, 21697] @ ascii ''ID:99'',
         ascii ''['' @ [128722] @ ascii '' '' @ [19979, 21333] @ ascii ''] 22:13:20 - ''
           @ [21830, 21697] @ ascii ''ID:99''] w)"
proof -
  have ok: "shopping_ok sample_rt (sample_codec r)
      \<lparr>msg_method = ascii ''WebcastLiveShoppingMessage'', msg_payload = [2, 99, 100]\<rparr>"
    by (simp add: shopping_ok_def sample_codec_def sample_shopping_def sample_rt_def getattr_def Let_def)
  show ?thesis
    unfolding handle_live_shopping [OF sample_fetcher_on_error sample_fetcher_raw ok]
    by (simp add: shopping_texts_def shopping_report_def type_line_def shopping_line_def
      order_line_def type_map_def sample_codec_def sample_shopping_def sample_rt_def two_digits_def
      getattr_def str_int_def str_nat.simps ascii_def Let_def)
qed

theorem message_failure_is_contained_witness:
  "quiet (on_error sample_fetcher)
   \<and> fst (wsOnMessage sample_rt (sample_codec gift_then_order) sample_fetcher [7] sample_conn) = Inr ()
   \<and> ws_connected (snd (wsOnMessage sample_rt (sample_codec gift_then_order) sample_fetcher [7] sample_conn))
   \<and> app (snd (wsOnMessage sample_rt (sample_codec gift_then_order) sample_fetcher [7] sample_conn)) =
       fold (\<lambda>m s. snd (handle_message sample_rt (sample_codec gift_then_order) sample_fetcher m s))
         (messages_list gift_then_order) recording_world
   \<and> handle_message sample_rt (sample_codec gift_then_order) sample_fetcher
         \<lparr>msg_method = ascii ''WebcastGiftMessage'', msg_payload = []\<rparr> recording_world =
       if_set (on_error sample_fetcher)
         (ascii ''['' @ [31036, 29289, 35299, 26512, 38169, 35823] @ ascii ''] '' @ ascii ''truncated'')
         recording_world
   \<and> handle_message sample_rt (sample_codec gift_then_order) raising_fetcher
         \<lparr>msg_method = ascii ''WebcastGiftMessage'', msg_payload = [1]\<rparr> recording_world =
       if_set (on_error raising_fetcher)
         (ascii ''['' @ [31036, 29289, 35299, 26512, 38169, 35823] @ ascii ''] '' @ ascii ''boom'')
         recording_world
   \<and> handle_message sample_rt failing_codec sample_fetcher
         \<lparr>msg_method = ascii ''WebcastProductChangeMessage'', msg_payload = [1]\<rparr> recording_world =
       for_each (if_set (on_error sample_fetcher))
         [type_line \<lparr>msg_method = ascii ''WebcastProductChangeMessage'', msg_payload = [1]\<rparr>,
          product_change_error @ ascii ''truncated''] recording_world
   \<and> handle_message sample_rt (sample_codec gift_then_order) sample_fetcher
         \<lparr>msg_method = ascii ''WebcastLiveShoppingMessage'', msg_payload = []\<rparr> recording_world =
       for_each (if_set (on_error sample_fetcher))
         [type_line \<lparr>msg_method = ascii ''WebcastLiveShoppingMessage'', msg_payload = []\<rparr>,
          live_shopping_error @ ascii ''truncated''] recording_world
   \<and> handle_message failing_rt (sample_codec gift_then_order) sample_fetcher
         \<lparr>msg_method = ascii ''WebcastLiveShoppingMessage'', msg_payload = [2, 99, 100]\<rparr> recording_world =
       for_each (if_set (on_error sample_fetcher))
         [type_line \<lparr>msg_method = ascii ''WebcastLiveShoppingMessage'', msg_payload = [2, 99, 100]\<rparr>,
          live_shopping_error @ ascii ''timestamp out of range for platform time_t''] recording_world
   \<and> handle_message sample_rt (sample_codec gift_then_order) sample_fetcher
         \<lparr>msg_method = ascii ''WebcastLiveEcomGeneralMessage'', msg_payload = [1]\<rparr> recording_world =
       for_each (if_set (on_error sample_fetcher))
         (type_line \<lparr>msg_method = ascii ''WebcastLiveEcomGeneralMessage'', msg_payload = [1]\<rparr>
            # ecom_report [1]) recording_world
   \<and> handle_message sample_rt (sample_codec gift_then_order) hooked_fetcher
         \<lparr>msg_method = ascii ''WebcastGiftMessage'', msg_payload = []\<rparr> recording_world =
       if_set (on_error hooked_fetcher)
         (ascii ''['' @ [28040, 24687, 35299, 26512, 24322, 24120] @ ascii ''] '' @ ascii ''WebcastGiftMessage''
            @ ascii '': '' @ ascii ''hook failed'') recording_world"
proof -
  have hq: "quiet (on_error hooked_fetcher)"
    using sample_fetcher_quiet by (simp add: hooked_fetcher_def)
  have rq: "quiet (on_error raising_fetcher)"
    using sample_fetcher_quiet by (simp add: raising_fetcher_def)
  have hook: "on_raw_message hooked_fetcher = Some (\<lambda>x. throw (ascii ''hook failed''))"
    by (simp add: hooked_fetcher_def)
  have rr: "on_raw_message raising_fetcher = None"
    by (simp add: raising_fetcher_def sample_fetcher_def)
  have first: "if_set (on_raw_message sample_fetcher) (ascii ''WebSocketRawMessage'', [7]) (app sample_conn) =
      (Inr (), recording_world)"
    by (simp add: sample_fetcher_def if_set_def ok_def sample_conn_def)
  have ack: "need_ack gift_then_order \<longrightarrow>
      ws_connected sample_conn \<and> utf8_encode (internal_ext gift_then_order) = Inr []"
    by (simp add: gift_then_order_def)
  have row: "(ascii ''WebcastGiftMessage'', parse_GiftMessage (sample_codec gift_then_order), Some (\<lambda>m. ok),
      ascii ''['' @ [31036, 29289, 35299, 26512, 38169, 35823] @ ascii ''] '')
      \<in> set (typed_parsers (sample_codec gift_then_order) sample_fetcher)"
    by (simp add: typed_parsers_def sample_fetcher_def)
  have row': "(ascii ''WebcastGiftMessage'', parse_GiftMessage (sample_codec gift_then_order),
      Some (\<lambda>m. throw (ascii ''boom'')),
      ascii ''['' @ [31036, 29289, 35299, 26512, 38169, 35823] @ ascii ''] '')
      \<in> set (typed_parsers (sample_codec gift_then_order) raising_fetcher)"
    by (simp add: typed_parsers_def raising_fetcher_def)
  have m1: "msg_method \<lparr>msg_method = ascii ''WebcastGiftMessage'', msg_payload = []\<rparr> =
      ascii ''WebcastGiftMessage''"
    by simp
  have m2: "msg_method \<lparr>msg_method = ascii ''WebcastGiftMessage'', msg_payload = [1]\<rparr> =
      ascii ''WebcastGiftMessage''"
    by simp
  have m3: "msg_method \<lparr>msg_method = ascii ''WebcastProductChangeMessage'', msg_payload = [1]\<rparr> =
      ascii ''WebcastProductChangeMessage''"
    by simp
  have d3: "parse_ProductChangeMessage failing_codec
      (msg_payload \<lparr>msg_method = ascii ''WebcastProductChangeMessage'', msg_payload = [1]\<rparr>) =
      Inl (ascii ''truncated'')"
    by (simp add: failing_codec_def)
  have m4: "msg_method \<lparr>msg_method = ascii ''WebcastLiveShoppingMessage'', msg_payload = []\<rparr> =
      ascii ''WebcastLiveShoppingMessage''"
    by simp
  have d4: "parse_LiveShoppingMessage (sample_codec gift_then_order)
      (msg_payload \<lparr>msg_method = ascii ''WebcastLiveShoppingMessage'', msg_payload = []\<rparr>) =
      Inl (ascii ''truncated'')"
    by (simp add: sample_codec_def sample_shopping_def)
  have m5: "msg_method \<lparr>msg_method = ascii ''WebcastLiveShoppingMessage'', msg_payload = [2, 99, 100]\<rparr> =
      ascii ''WebcastLiveShoppingMessage''"
    by simp
  have d5: "parse_LiveShoppingMessage (sample_codec gift_then_order)
      (msg_payload \<lparr>msg_method = ascii ''WebcastLiveShoppingMessage'', msg_payload = [2, 99, 100]\<rparr>) =
      Inr \<lparr>common = Some \<lparr>create_time = Some 1700000000100\<rparr>, msg_type = Some 2,
           promotion_id = Some 99\<rparr>"
    by (simp add: sample_codec_def sample_shopping_def)
  have c5: "common \<lparr>common = Some \<lparr>create_time = Some 1700000000100\<rparr>, msg_type = Some 2,
      promotion_id = Some 99\<rparr> = Some \<lparr>create_time = Some 1700000000100\<rparr>"
    by simp
  have t5: "create_time \<lparr>create_time = Some 1700000000100\<rparr> = Some 1700000000100"
    by simp
  have pos: "(0::int) < 1700000000100"
    by simp
  have s5: "strftime_HMS_local failing_rt 1700000000100 =
      Inl (ascii ''timestamp out of range for platform time_t'')"
    by (simp add: failing_rt_def)
  have m6: "msg_method \<lparr>msg_method = ascii ''WebcastLiveEcomGeneralMessage'', msg_payload = [1]\<rparr> =
      ascii ''WebcastLiveEcomGeneralMessage''"
    by simp
  have d7: "(\<lambda>x. throw (ascii ''hook failed''))
      (msg_method \<lparr>msg_method = ascii ''WebcastGiftMessage'', msg_payload = []\<rparr>,
       msg_payload \<lparr>msg_method = ascii ''WebcastGiftMessage'', msg_payload = []\<rparr>) recording_world =
      (Inl (ascii ''hook failed''), recording_world)"
    by (simp add: throw_def)
  note t1 = message_failure_is_contained [OF sample_fetcher_quiet,
        where rt = "sample_rt" and cd = "sample_codec gift_then_order"
          and message = "[7]" and c = "sample_conn"
          and package = "\<lparr>log_id = 7, payload_type = ascii ''msg'', frame_payload = []\<rparr>"
          and raw = "[]" and response = "gift_then_order" and w0 = "recording_world"
          and token = "[]"
          and m = "\<lparr>msg_method = ascii ''WebcastGiftMessage'', msg_payload = []\<rparr>"
          and w = "recording_world" and name = "ascii ''WebcastGiftMessage''"
          and decode = "parse_GiftMessage (sample_codec gift_then_order)" and h = "\<lambda>m. ok"
          and label = "ascii ''['' @ [31036, 29289, 35299, 26512, 38169, 35823] @ ascii ''] ''"
          and e = "ascii ''truncated''"
          and shopping = "\<lparr>common = Some \<lparr>create_time = Some 1700000000100\<rparr>, msg_type = Some 2, promotion_id = Some 99\<rparr>"
          and cm = "\<lparr>create_time = Some 1700000000100\<rparr>" and ct = "1700000000100"
          and hook = "\<lambda>x. ok" and w' = "recording_world"]
  note t2 = message_failure_is_contained [OF rq,
        where rt = "sample_rt" and cd = "sample_codec gift_then_order"
          and message = "[7]" and c = "sample_conn"
          and package = "\<lparr>log_id = 7, payload_type = ascii ''msg'', frame_payload = []\<rparr>"
          and raw = "[]" and response = "gift_then_order" and w0 = "recording_world"
          and token = "[]"
          and m = "\<lparr>msg_method = ascii ''WebcastGiftMessage'', msg_payload = [1]\<rparr>"
          and w = "recording_world" and name = "ascii ''WebcastGiftMessage''"
          and decode = "parse_GiftMessage (sample_codec gift_then_order)"
          and h = "\<lambda>m. throw (ascii ''boom'')"
          and label = "ascii ''['' @ [31036, 29289, 35299, 26512, 38169, 35823] @ ascii ''] ''"
          and e = "ascii ''boom''"
          and shopping = "\<lparr>common = Some \<lparr>create_time = Some 1700000000100\<rparr>, msg_type = Some 2, promotion_id = Some 99\<rparr>"
          and cm = "\<lparr>create_time = Some 1700000000100\<rparr>" and ct = "1700000000100"
          and hook = "\<lambda>x. ok" and w' = "recording_world"]
  note t3 = message_failure_is_contained [OF sample_fetcher_quiet,
        where rt = "sample_rt" and cd = "failing_codec"
          and message = "[7]" and c = "sample_conn"
          and package = "\<lparr>log_id = 7, payload_type = ascii ''msg'', frame_payload = []\<rparr>"
          and raw = "[]" and response = "gift_then_order" and w0 = "recording_world"
          and token = "[]"
          and m = "\<lparr>msg_method = ascii ''WebcastProductChangeMessage'', msg_payload = [1]\<rparr>"
          and w = "recording_world" and name = "ascii ''WebcastGiftMessage''"
          and decode = "parse_GiftMessage failing_codec" and h = "\<lambda>m. ok"
          and label = "ascii ''['' @ [31036, 29289, 35299, 26512, 38169, 35823] @ ascii ''] ''"
          and e = "ascii ''truncated''"
          and shopping = "\<lparr>common = Some \<lparr>create_time = Some 1700000000100\<rparr>, msg_type = Some 2, promotion_id = Some 99\<rparr>"
          and cm = "\<lparr>create_time = Some 1700000000100\<rparr>" and ct = "1700000000100"
          and hook = "\<lambda>x. ok" and w' = "recording_world"]
  note t4 = message_failure_is_contained [OF sample_fetcher_quiet,
        where rt = "sample_rt" and cd = "sample_codec gift_then_order"
          and message = "[7]" and c = "sample_conn"
          and package = "\<lparr>log_id = 7, payload_type = ascii ''msg'', frame_payload = []\<rparr>"
          and raw = "[]" and response = "gift_then_order" and w0 = "recording_world"
          and token = "[]"
          and m = "\<lparr>msg_method = ascii ''WebcastLiveShoppingMessage'', msg_payload = []\<rparr>"
          and w = "recording_world" and name = "ascii ''WebcastGiftMessage''"
          and decode = "parse_GiftMessage (sample_codec gift_then_order)" and h = "\<lambda>m. ok"
          and label = "ascii ''['' @ [31036, 29289, 35299, 26512, 38169, 35823] @ ascii ''] ''"
          and e = "ascii ''truncated''"
          and shopping = "\<lparr>common = Some \<lparr>create_time = Some 1700000000100\<rparr>, msg_type = Some 2, promotion_id = Some 99\<rparr>"
          and cm = "\<lparr>create_time = Some 1700000000100\<rparr>" and ct = "1700000000100"
          and hook = "\<lambda>x. ok" and w' = "recording_world"]
  note t5' = message_failure_is_contained [OF sample_fetcher_quiet,
        where rt = "failing_rt" and cd = "sample_codec gift_then_order"
          and message = "[7]" and c = "sample_conn"
          and package = "\<lparr>log_id = 7, payload_type = ascii ''msg'', frame_payload = []\<rparr>"
          and raw = "[]" and response = "gift_then_order" and w0 = "recording_world"
          and token = "[]"
          and m = "\<lparr>msg_method = ascii ''WebcastLiveShoppingMessage'', msg_payload = [2, 99, 100]\<rparr>"
          and w = "recording_world" and name = "ascii ''WebcastGiftMessage''"
          and decode = "parse_GiftMessage (sample_codec gift_then_order)" and h = "\<lambda>m. ok"
          and label = "ascii ''['' @ [31036, 29289, 35299, 26512, 38169, 35823] @ ascii ''] ''"
          and e = "ascii ''timestamp out of range for platform time_t''"
          and shopping = "\<lparr>common = Some \<lparr>create_time = Some 1700000000100\<rparr>, msg_type = Some 2, promotion_id = Some 99\<rparr>"
          and cm = "\<lparr>create_time = Some 1700000000100\<rparr>" and ct = "1700000000100"
          and hook = "\<lambda>x. ok" and w' = "recording_world"]
  note t6 = message_failure_is_contained [OF sample_fetcher_quiet,
        where rt = "sample_rt" and cd = "sample_codec gift_then_order"
          and message = "[7]" and c = "sample_conn"
          and package = "\<lparr>log_id = 7, payload_type = ascii ''msg'', frame_payload = []\<rparr>"
          and raw = "[]" and response = "gift_then_order" and w0 = "recording_world"
          and token = "[]"
          and m = "\<lparr>msg_method = ascii ''WebcastLiveEcomGeneralMessage'', msg_payload = [1]\<rparr>"
          and w = "recording_world" and name = "ascii ''WebcastGiftMessage''"
          and decode = "parse_GiftMessage (sample_codec gift_then_order)" and h = "\<lambda>m. ok"
          and label = "ascii ''['' @ [31036, 29289, 35299, 26512, 38169, 35823] @ ascii ''] ''"
          and e = "ascii ''truncated''"
          and shopping = "\<lparr>common = Some \<lparr>create_time = Some 1700000000100\<rparr>, msg_type = Some 2, promotion_id = Some 99\<rparr>"
          and cm = "\<lparr>create_time = Some 1700000000100\<rparr>" and ct = "1700000000100"
          and hook = "\<lambda>x. ok" and w' = "recording_world"]
  note t7 = message_failure_is_contained [OF hq,
        where rt = "sample_rt" and cd = "sample_codec gift_then_order"
          and message = "[7]" and c = "sample_conn"
          and package = "\<lparr>log_id = 7, payload_type = ascii ''msg'', frame_payload = []\<rparr>"
          and raw = "[]" and response = "gift_then_order" and w0 = "recording_world"
          and token = "[]"
          and m = "\<lparr>msg_method = ascii ''WebcastGiftMessage'', msg_payload = []\<rparr>"
          and w = "recording_world" and name = "ascii ''WebcastGiftMessage''"
          and decode = "parse_GiftMessage (sample_codec gift_then_order)" and h = "\<lambda>m. ok"
          and label = "ascii ''['' @ [31036, 29289, 35299, 26512, 38169, 35823] @ ascii ''] ''"
          and e = "ascii ''hook failed''"
          and shopping = "\<lparr>common = Some \<lparr>create_time = Some 1700000000100\<rparr>, msg_type = Some 2, promotion_id = Some 99\<rparr>"
          and cm = "\<lparr>create_time = Some 1700000000100\<rparr>" and ct = "1700000000100"
          and hook = "\<lambda>x. throw (ascii ''hook failed'')" and w' = "recording_world"]
  have p1: "fst (wsOnMessage sample_rt (sample_codec gift_then_order) sample_fetcher [7] sample_conn) = Inr ()"
    by (rule t1 [THEN conjunct1])
  have p2: "ws_connected (snd (wsOnMessage sample_rt (sample_codec gift_then_order) sample_fetcher [7] sample_conn))"
    using t1 [THEN conjunct2, THEN conjunct1] by (simp add: sample_conn_def)
  have p3: "app (snd (wsOnMessage sample_rt (sample_codec gift_then_order) sample_fetcher [7] sample_conn)) =
       fold (\<lambda>m s. snd (handle_message sample_rt (sample_codec gift_then_order) sample_fetcher m s))
         (messages_list gift_then_order) recording_world"
    by (rule t1 [THEN conjunct2, THEN conjunct2, THEN conjunct1, THEN mp,
          OF conjI [OF sample_frame_decodes(1) conjI [OF sample_frame_decodes(2)
            conjI [OF sample_frame_decodes(3) conjI [OF first ack]]]]])
  have p4: "handle_message sample_rt (sample_codec gift_then_order) sample_fetcher
         \<lparr>msg_method = ascii ''WebcastGiftMessage'', msg_payload = []\<rparr> recording_world =
       if_set (on_error sample_fetcher)
         (ascii ''['' @ [31036, 29289, 35299, 26512, 38169, 35823] @ ascii ''] '' @ ascii ''truncated'')
         recording_world"
    using t1 [THEN conjunct2, THEN conjunct2, THEN conjunct2, THEN conjunct2, THEN conjunct1, THEN mp, OF conjI [OF row conjI [OF m1 sample_fetcher_raw]]]
    by (simp add: sample_codec_def sample_object_def)
  have p5: "handle_message sample_rt (sample_codec gift_then_order) raising_fetcher
         \<lparr>msg_method = ascii ''WebcastGiftMessage'', msg_payload = [1]\<rparr> recording_world =
       if_set (on_error raising_fetcher)
         (ascii ''['' @ [31036, 29289, 35299, 26512, 38169, 35823] @ ascii ''] '' @ ascii ''boom'')
         recording_world"
    using t2 [THEN conjunct2, THEN conjunct2, THEN conjunct2, THEN conjunct2, THEN conjunct1, THEN mp, OF conjI [OF row' conjI [OF m2 rr]]]
    by (simp add: sample_codec_def sample_object_def throw_def)
  have p6: "handle_message sample_rt failing_codec sample_fetcher
         \<lparr>msg_method = ascii ''WebcastProductChangeMessage'', msg_payload = [1]\<rparr> recording_world =
       for_each (if_set (on_error sample_fetcher))
         [type_line \<lparr>msg_method = ascii ''WebcastProductChangeMessage'', msg_payload = [1]\<rparr>,
          product_change_error @ ascii ''truncated''] recording_world"
    by (rule t3 [THEN conjunct2, THEN conjunct2, THEN conjunct2, THEN conjunct2, THEN conjunct2, THEN conjunct1, THEN mp, OF conjI [OF m3 conjI [OF sample_fetcher_raw d3]]])
  have p7: "handle_message sample_rt (sample_codec gift_then_order) sample_fetcher
         \<lparr>msg_method = ascii ''WebcastLiveShoppingMessage'', msg_payload = []\<rparr> recording_world =
       for_each (if_set (on_error sample_fetcher))
         [type_line \<lparr>msg_method = ascii ''WebcastLiveShoppingMessage'', msg_payload = []\<rparr>,
          live_shopping_error @ ascii ''truncated''] recording_world"
    by (rule t4 [THEN conjunct2, THEN conjunct2, THEN conjunct2, THEN conjunct2, THEN conjunct2, THEN conjunct2, THEN conjunct1, THEN mp, OF conjI [OF m4 conjI [OF sample_fetcher_raw d4]]])
  have p8: "handle_message failing_rt (sample_codec gift_then_order) sample_fetcher
         \<lparr>msg_method = ascii ''WebcastLiveShoppingMessage'', msg_payload = [2, 99, 100]\<rparr> recording_world =
       for_each (if_set (on_error sample_fetcher))
         [type_line \<lparr>msg_method = ascii ''WebcastLiveShoppingMessage'', msg_payload = [2, 99, 100]\<rparr>,
          live_shopping_error @ ascii ''timestamp out of range for platform time_t''] recording_world"
    by (rule t5' [THEN conjunct2, THEN conjunct2, THEN conjunct2, THEN conjunct2, THEN conjunct2, THEN conjunct2, THEN conjunct2, THEN conjunct1, THEN mp,
          OF conjI [OF m5 conjI [OF sample_fetcher_raw conjI [OF d5 conjI [OF c5 conjI [OF t5
            conjI [OF pos s5]]]]]]])
  have p9: "handle_message sample_rt (sample_codec gift_then_order) sample_fetcher
         \<lparr>msg_method = ascii ''WebcastLiveEcomGeneralMessage'', msg_payload = [1]\<rparr> recording_world =
       for_each (if_set (on_error sample_fetcher))
         (type_line \<lparr>msg_method = ascii ''WebcastLiveEcomGeneralMessage'', msg_payload = [1]\<rparr>
            # ecom_report [1]) recording_world"
    using t6 [THEN conjunct2, THEN conjunct2, THEN conjunct2, THEN conjunct2, THEN conjunct2, THEN conjunct2, THEN conjunct2, THEN conjunct2, THEN conjunct1, THEN mp, OF conjI [OF m6 sample_fetcher_raw]]
    by simp
  have p10: "handle_message sample_rt (sample_codec gift_then_order) hooked_fetcher
         \<lparr>msg_method = ascii ''WebcastGiftMessage'', msg_payload = []\<rparr> recording_world =
       if_set (on_error hooked_fetcher)
         (ascii ''['' @ [28040, 24687, 35299, 26512, 24322, 24120] @ ascii ''] '' @ ascii ''WebcastGiftMessage''
            @ ascii '': '' @ ascii ''hook failed'') recording_world"
    using t7 [THEN conjunct2, THEN conjunct2, THEN conjunct2, THEN conjunct2, THEN conjunct2, THEN conjunct2, THEN conjunct2, THEN conjunct2, THEN conjunct2, THEN mp, OF conjI [OF hook d7]]
    by simp
  show ?thesis
    by (intro conjI sample_fetcher_quiet p1 p2 p3 p4 p5 p6 p7 p8 p9 p10)
qed

text \<open>
  A gift message that cannot be decoded, followed by an order: the order is transcribed,
  and the line for the gift carries the label of the gift parser and not the method name.
\<close>

theorem gift_error_label_counterexample:
  "transcript (app (snd (wsOnMessage sample_rt (sample_codec gift_then_order) sample_fetcher [7] sample_conn)))
       (ascii ''out/b.txt'') =
     [ascii ''[12:00:00] ['' @ [31995, 32479] @ ascii ''] ['' @ [31036, 29289, 35299, 26512, 38169, 35823]
        @ ascii ''] truncated'' @ [10],
      ascii ''[12:00:00] ['' @ [31995, 32479] @ ascii ''] ['' @ [28040, 24687, 31867, 22411]
        @ ascii ''] WebcastLiveShoppingMessage - '' @ [25968, 25454, 38271, 24230] @ ascii '': 3'' @ [10],
      ascii ''[12:00:00] ['' @ [31995, 32479] @ ascii ''] ['' @ [30452, 25773, 36141, 29289]
        @ ascii ''] 22:13:20 - '' @ [19979, 21333, 25805, 20316] @ ascii '', '' @ [21830, 21697]
        @ ascii ''ID:99'' @ [10],
      ascii ''[12:00:00] ['' @ [31995, 32479] @ ascii ''] ['' @ [128722] @ ascii '' '' @ [19979, 21333]
        @ ascii ''] 22:13:20 - '' @ [21830, 21697] @ ascii ''ID:99'' @ [10]]
   \<and> \<not> list_ex (str_contains (ascii ''WebcastGiftMessage''))
        (transcript (app (snd (wsOnMessage sample_rt (sample_codec gift_then_order) sample_fetcher [7]
           sample_conn))) (ascii ''out/b.txt''))"
proof -
  have ack: "need_ack gift_then_order \<longrightarrow>
      ws_connected sample_conn \<and> utf8_encode (internal_ext gift_then_order) = Inr []"
    by (simp add: gift_then_order_def)
  have run: "app (snd (wsOnMessage sample_rt (sample_codec gift_then_order) sample_fetcher [7] sample_conn)) =
      fold (handle_error_message sample_env (ascii ''rec1''))
        [ascii ''['' @ [31036, 29289, 35299, 26512, 38169, 35823] @ ascii ''] truncated'',
         ascii ''['' @ [28040, 24687, 31867, 22411] @ ascii ''] WebcastLiveShoppingMessage - ''
           @ [25968, 25454, 38271, 24230] @ ascii '': 3'',
         ascii ''['' @ [30452, 25773, 36141, 29289] @ ascii ''] 22:13:20 - '' @ [19979, 21333, 25805, 20316]
           @ ascii '', '' @ [21830, 21697] @ ascii ''ID:99'',
         ascii ''['' @ [128722] @ ascii '' '' @ [19979, 21333] @ ascii ''] 22:13:20 - ''
           @ [21830, 21697] @ ascii ''ID:99''] (app sample_conn)"
    unfolding wsOnMessage_decoded [OF sample_frame_decodes sample_fetcher_raw sample_fetcher_quiet ack]
    by (simp add: gift_then_order_def then_do_def ok_def handle_bad_gift handle_sample_order)
  show ?thesis
    unfolding run transcript_fold_handle_error_message [OF sample_conn_session(1,2)]
      sample_conn_session(3,4)
    by (simp add: system_line_def sample_env_def ascii_def)
qed

section \<open>Commerce messages without a diagnostic callback\<close>

text \<open>
  Claim C6 on the code. The commerce parsers write through \<open>on_error\<close> only; without
  it the call raises \<open>TypeError\<close> inside the parser's \<open>try\<close>, the handler is guarded, and
  nothing is produced, although the comments of lines 219, 233 and 277 say that the
  handling does not depend on the callback.
\<close>

theorem commerce_silent_without_on_error:
  assumes "on_error f = None" and "on_raw_message f = None"
    and "msg_method m \<in> set shopping_message_types"
  shows "handle_message rt cd f m w = (Inr (), w)"
proof -
  consider "msg_method m = ascii ''WebcastProductChangeMessage''"
    | "msg_method m = ascii ''WebcastLiveShoppingMessage''"
    | "msg_method m = ascii ''WebcastLiveEcomGeneralMessage''"
    using assms(3) by (auto simp: shopping_message_types_def)
  then show ?thesis
  proof cases
    case 1
    then show ?thesis
      using assms(1,2)
      by (cases "parse_ProductChangeMessage cd (msg_payload m)")
         (simp_all add: handle_message_def report_message_def dispatch_def parseProductChangeMsg_def
           try_except_def then_do_def if_set_def call_def ok_def throw_def ascii_def Let_def)
  next
    case 2
    then show ?thesis
      using assms(1,2)
      by (cases "parse_LiveShoppingMessage cd (msg_payload m)")
         (auto simp: handle_message_def report_message_def dispatch_live_shopping parseLiveShoppingMsg_def
           try_except_def then_do_def if_set_def call_def ok_def throw_def Let_def
           split: sum.splits)
  next
    case 3
    then show ?thesis
      using assms(1,2)
      by (simp add: handle_message_def report_message_def dispatch_def parseLiveEcomGeneralMsg_def
           try_except_def then_do_def if_set_def ok_def ascii_def Let_def)
  qed
qed

theorem commerce_silent_without_on_error_witness:
  "on_error mute_fetcher = None \<and> on_raw_message mute_fetcher = None
   \<and> handle_message sample_rt (sample_codec three_orders) mute_fetcher
       \<lparr>msg_method = ascii ''WebcastLiveShoppingMessage'', msg_payload = [2, 99, 100]\<rparr> recording_world
     = (Inr (), recording_world)
   \<and> parse_LiveShoppingMessage (sample_codec three_orders) [2, 99, 100] =
       Inr \<lparr>common = Some \<lparr>create_time = Some 1700000000100\<rparr>, msg_type = Some 2,
            promotion_id = Some 99\<rparr>"
proof -
  have a: "on_error mute_fetcher = None" and b: "on_raw_message mute_fetcher = None"
    by (simp_all add: mute_fetcher_def sample_fetcher_def)
  have c: "msg_method \<lparr>msg_method = ascii ''WebcastLiveShoppingMessage'', msg_payload = [2, 99, 100]\<rparr>
      \<in> set shopping_message_types"
    by (simp add: shopping_message_types_def)
  show ?thesis
    using commerce_silent_without_on_error [OF a b c, of sample_rt "sample_codec three_orders" recording_world] a b
    by (simp add: sample_codec_def sample_shopping_def)
qed

section \<open>Messages of an unknown method\<close>

























section \<open>The duplicate check\<close>

lemma extractMessageSignature_unbound:
  "extractMessageSignature module_hashlib rt cd method p = None"
  by (simp add: extractMessageSignature_def hashed_def module_hashlib_def Let_def split: sum.splits)

lemma debug_return_quiet:
  "quiet (on_error f) \<Longrightarrow>
     fst (debug_return f line result cache w) = Inr result
     \<and> fst (snd (debug_return f line result cache w)) = cache"
  using if_set_quiet [of "on_error f" line w]
  by (cases "if_set (on_error f) line w") (auto simp: debug_return_def split: sum.splits)

lemma isDuplicateMessage_shopping:
  assumes "quiet (on_error f)"
    and "md5_of (md5_hexdigest rt) (ascii ''WebcastLiveShoppingMessage'' @ ascii ''_'' @ repr_bytes rt p) = Inr h"
  shows "fst (isDuplicateMessage rt cd f t (ascii ''WebcastLiveShoppingMessage'') p (cache, w)) =
           Inr (purge t cache h \<noteq> None)
       \<and> fst (snd (isDuplicateMessage rt cd f t (ascii ''WebcastLiveShoppingMessage'') p (cache, w))) =
           (if purge t cache h \<noteq> None then purge t cache else (purge t cache)(h \<mapsto> t))"
  using assms(2) debug_return_quiet [OF assms(1)]
  by (simp add: isDuplicateMessage_def extractMessageSignature_unbound falsy_def Let_def)

text \<open>
  Claim C4 on the code. The signature is never computed, so the check keys on the bytes
  of the payload: two live-shopping payloads whose digests differ are both let through,
  whatever they decode to and however close the two calls are.
\<close>

theorem duplicate_check_keys_on_payload:
  assumes "quiet (on_error f)"
    and "md5_of (md5_hexdigest rt) (ascii ''WebcastLiveShoppingMessage'' @ ascii ''_'' @ repr_bytes rt p1) = Inr h1"
    and "md5_of (md5_hexdigest rt) (ascii ''WebcastLiveShoppingMessage'' @ ascii ''_'' @ repr_bytes rt p2) = Inr h2"
    and "h1 \<noteq> h2"
  shows "fst (isDuplicateMessage rt cd f t1 (ascii ''WebcastLiveShoppingMessage'') p1 (Map.empty, w)) = Inr False
       \<and> fst (isDuplicateMessage rt cd f t2 (ascii ''WebcastLiveShoppingMessage'') p2
              (snd (isDuplicateMessage rt cd f t1 (ascii ''WebcastLiveShoppingMessage'') p1 (Map.empty, w))))
           = Inr False"
proof -
  let ?first = "isDuplicateMessage rt cd f t1 (ascii ''WebcastLiveShoppingMessage'') p1 (Map.empty, w)"
  note one = isDuplicateMessage_shopping [OF assms(1,2), of cd t1 Map.empty w]
  have r1: "fst ?first = Inr False" and c1: "fst (snd ?first) = Map.empty(h1 \<mapsto> t1)"
    using one by (simp_all add: purge_def)
  obtain w1 where st1: "snd ?first = (Map.empty(h1 \<mapsto> t1), w1)"
    using c1 by (cases "snd ?first") simp
  have "purge t2 (Map.empty(h1 \<mapsto> t1)) h2 = None"
    using assms(4) by (simp add: purge_def)
  then have "fst (isDuplicateMessage rt cd f t2 (ascii ''WebcastLiveShoppingMessage'') p2 (snd ?first)) = Inr False"
    unfolding st1 using isDuplicateMessage_shopping [OF assms(1,3), of cd t2 "Map.empty(h1 \<mapsto> t1)" w1]
    by simp
  then show ?thesis using r1 by simp
qed

text \<open>
  Two payloads for promotion 99 within the same second, checked half a second apart.
\<close>

theorem duplicate_check_keys_on_payload_witness:
  "parse_LiveShoppingMessage (sample_codec three_orders) [2, 99, 100] =
     Inr \<lparr>common = Some \<lparr>create_time = Some 1700000000100\<rparr>, msg_type = Some 2, promotion_id = Some 99\<rparr>
   \<and> parse_LiveShoppingMessage (sample_codec three_orders) [2, 99, 200] =
     Inr \<lparr>common = Some \<lparr>create_time = Some 1700000000200\<rparr>, msg_type = Some 2, promotion_id = Some 99\<rparr>
   \<and> (1700000000100::int) div 1000 = 1700000000200 div 1000
   \<and> fst (isDuplicateMessage sample_rt (sample_codec three_orders) sample_fetcher 10
          (ascii ''WebcastLiveShoppingMessage'') [2, 99, 100] (Map.empty, recording_world)) = Inr False
   \<and> fst (isDuplicateMessage sample_rt (sample_codec three_orders) sample_fetcher (21 / 2)
          (ascii ''WebcastLiveShoppingMessage'') [2, 99, 200]
          (snd (isDuplicateMessage sample_rt (sample_codec three_orders) sample_fetcher 10
             (ascii ''WebcastLiveShoppingMessage'') [2, 99, 100] (Map.empty, recording_world)))) = Inr False"
proof -
  have h1: "md5_of (md5_hexdigest sample_rt)
      (ascii ''WebcastLiveShoppingMessage'' @ ascii ''_'' @ repr_bytes sample_rt [2, 99, 100]) =
      Inr (ascii ''WebcastLiveShoppingMessage_b'' @ [39, 92] @ ascii ''x02cd'' @ [39])"
    by (simp add: md5_of_def sample_rt_def utf8_char_def hex_digit_def ascii_def)
  have h2: "md5_of (md5_hexdigest sample_rt)
      (ascii ''WebcastLiveShoppingMessage'' @ ascii ''_'' @ repr_bytes sample_rt [2, 99, 200]) =
      Inr (ascii ''WebcastLiveShoppingMessage_b'' @ [39, 92] @ ascii ''x02c'' @ [92] @ ascii ''xc8'' @ [39])"
    by (simp add: md5_of_def sample_rt_def utf8_char_def hex_digit_def ascii_def)
  have ne: "ascii ''WebcastLiveShoppingMessage_b'' @ [39, 92] @ ascii ''x02cd'' @ [39]
      \<noteq> ascii ''WebcastLiveShoppingMessage_b'' @ [39, 92] @ ascii ''x02c'' @ [92] @ ascii ''xc8'' @ [39]"
    by (simp add: ascii_def)
  have dec: "parse_LiveShoppingMessage (sample_codec three_orders) [2, 99, 100] =
     Inr \<lparr>common = Some \<lparr>create_time = Some 1700000000100\<rparr>, msg_type = Some 2, promotion_id = Some 99\<rparr>"
    "parse_LiveShoppingMessage (sample_codec three_orders) [2, 99, 200] =
     Inr \<lparr>common = Some \<lparr>create_time = Some 1700000000200\<rparr>, msg_type = Some 2, promotion_id = Some 99\<rparr>"
    by (simp_all add: sample_codec_def sample_shopping_def)
  have sec: "(1700000000100::int) div 1000 = 1700000000200 div 1000" by simp
  note t = duplicate_check_keys_on_payload [OF sample_fetcher_quiet h1 h2 ne,
      of "sample_codec three_orders" 10 recording_world "21 / 2"]
  show ?thesis
    by (intro conjI dec sec t [THEN conjunct1] t [THEN conjunct2])
qed

text \<open>
  The same payload twice is suppressed exactly when the second call comes within the
  time-out of the first.
\<close>

lemma duplicate_check_same_payload:
  assumes "quiet (on_error f)"
    and "md5_of (md5_hexdigest rt) (ascii ''WebcastLiveShoppingMessage'' @ ascii ''_'' @ repr_bytes rt p) = Inr h"
  shows "fst (isDuplicateMessage rt cd f t2 (ascii ''WebcastLiveShoppingMessage'') p
              (snd (isDuplicateMessage rt cd f t1 (ascii ''WebcastLiveShoppingMessage'') p (Map.empty, w))))
           = Inr (t2 - t1 \<le> cache_timeout)"
proof -
  let ?first = "isDuplicateMessage rt cd f t1 (ascii ''WebcastLiveShoppingMessage'') p (Map.empty, w)"
  note one = isDuplicateMessage_shopping [OF assms(1,2), of cd t1 Map.empty w]
  have c1: "fst (snd ?first) = Map.empty(h \<mapsto> t1)"
    using one by (simp add: purge_def)
  obtain w1 where st1: "snd ?first = (Map.empty(h \<mapsto> t1), w1)"
    using c1 by (cases "snd ?first") simp
  show ?thesis
    unfolding st1 using isDuplicateMessage_shopping [OF assms(1,2), of cd t2 "Map.empty(h \<mapsto> t1)" w1]
    by (simp add: purge_def)
qed

end
